theory Spec2Isabelle
  imports Main "HOL-Library.Word"
begin

unbundle bit_operations_syntax

section \<open>Arrow foreign-data engine of pg-strom (src/next/arrow\_fdw.c)\<close>

text \<open>
  The development embeds the metadata cache, the statistics binder, the type binder, the
  record-batch state builder and the file-set resolver of \<^verbatim>\<open>arrow_fdw.c\<close>.
  C integers are machine words: \<^verbatim>\<open>int64\<close>, \<^verbatim>\<open>off_t\<close> and
  \<^verbatim>\<open>size_t\<close> are 64-bit words, \<^verbatim>\<open>int\<close> and \<^verbatim>\<open>Oid\<close>
  are 32-bit words, \<^verbatim>\<open>int128_t\<close> is a 128-bit word. Every \<^verbatim>\<open>elog(ERROR, ...)\<close>
  of the source is a value of the type \<open>error\<close>; a function that can raise returns
  \<open>error + 'a\<close>.
\<close>

subsection \<open>Machine integers and alignment\<close>

type_synonym int32 = "32 word"
type_synonym int64 = "64 word"
type_synonym size_t = "64 word"
type_synonym off_t = "64 word"
type_synonym int128_t = "128 word"
type_synonym Oid = "32 word"

text \<open>
  \<^verbatim>\<open>MAXALIGN(LEN)\<close> is PostgreSQL's \<^verbatim>\<open>TYPEALIGN(MAXIMUM_ALIGNOF, LEN)\<close>, that is
  \<^verbatim>\<open>(LEN + (MAXIMUM_ALIGNOF - 1)) & ~(MAXIMUM_ALIGNOF - 1)\<close> on \<^verbatim>\<open>uintptr_t\<close>;
  the maximum primitive alignment of the 64-bit platforms the extension supports is 8.
\<close>

definition MAXIMUM_ALIGNOF :: "64 word" where
  "MAXIMUM_ALIGNOF = 8"

definition MAXALIGN :: "64 word \<Rightarrow> 64 word" where
  "MAXALIGN len = (len + (MAXIMUM_ALIGNOF - 1)) AND NOT (MAXIMUM_ALIGNOF - 1)"

text \<open>
  Modelled from the spec: the macro \<^verbatim>\<open>BITMAPLEN\<close> is declared outside the source files
  at hand; the spec gives the nullmap bound as \<open>ceil(row_count/8)\<close>.
\<close>

definition BITMAPLEN :: "64 word \<Rightarrow> 64 word" where
  "BITMAPLEN n = (n + 7) div 8"

subsection \<open>Errors\<close>

datatype error =
    LessFieldNodes            \<comment> \<open>RecordBatch has less ArrowFieldNode than expected\<close>
  | LessBuffers               \<comment> \<open>RecordBatch has less buffers than expected\<close>
  | NullmapTooSmall           \<comment> \<open>nullmap length is smaller than expected\<close>
  | NullmapNotAligned         \<comment> \<open>nullmap is not aligned well\<close>
  | ValuesTooSmall            \<comment> \<open>values array is smaller than expected\<close>
  | ValuesNotAligned          \<comment> \<open>values array is not aligned well\<close>
  | ExtraNotAligned           \<comment> \<open>extra buffer is not aligned well\<close>
  | RecordBatchMayBeCorrupted \<comment> \<open>arrow\_fdw: RecordBatch may be corrupted\<close>
  | UnsupportedType           \<comment> \<open>a bit width, precision or unit the binder refuses\<close>
  | ListCorrupted             \<comment> \<open>Bug? List of arrow type is corrupted\<close>
  | UnsupportedNesting        \<comment> \<open>nested array or composite type is not supported\<close>
  | NoArrayType               \<comment> \<open>type has no array type\<close>
  | NoCompatibleComposite     \<comment> \<open>didn't find out compatible composite type\<close>
  | UnsupportedFeature        \<comment> \<open>compressed record batch or dictionary batch\<close>
  | OpenFailed                \<comment> \<open>failed to open the file, errno other than ENOENT\<close>
  | StatFailed                \<comment> \<open>failed on stat\<close>
  | SchemaMismatch            \<comment> \<open>foreign table is not compatible to the file\<close>
  | UnableToAccess string     \<comment> \<open>arrow\_fdw: unable to access the path\<close>
  | ParallelWorkersTwice      \<comment> \<open>'parallel\_workers' appeared twice\<close>
  | UnknownOption string      \<comment> \<open>arrow: unknown option\<close>
  | SuffixWithoutDir          \<comment> \<open>arrow: cannot use 'suffix' option without 'dir'\<close>
  | DirReadFailed             \<comment> \<open>AllocateDir/ReadDir could not read the directory\<close>

text \<open>The errors the spec calls \<open>RecordBatchCorrupt\<close>: a buffer alignment or length
  invariant is violated, or the cursors do not match the schema.\<close>

fun RecordBatchCorrupt :: "error \<Rightarrow> bool" where
  "RecordBatchCorrupt LessFieldNodes = True"
| "RecordBatchCorrupt LessBuffers = True"
| "RecordBatchCorrupt NullmapTooSmall = True"
| "RecordBatchCorrupt NullmapNotAligned = True"
| "RecordBatchCorrupt ValuesTooSmall = True"
| "RecordBatchCorrupt ValuesNotAligned = True"
| "RecordBatchCorrupt ExtraNotAligned = True"
| "RecordBatchCorrupt RecordBatchMayBeCorrupted = True"
| "RecordBatchCorrupt _ = False"

subsection \<open>Arrow schema and record-batch descriptors\<close>

datatype ArrowPrecision =
  ArrowPrecision__Half | ArrowPrecision__Single | ArrowPrecision__Double
  | ArrowPrecision__Unknown

datatype ArrowDateUnit =
  ArrowDateUnit__Day | ArrowDateUnit__MilliSecond | ArrowDateUnit__Unknown

datatype ArrowTimeUnit =
  ArrowTimeUnit__Second | ArrowTimeUnit__MilliSecond | ArrowTimeUnit__MicroSecond
  | ArrowTimeUnit__NanoSecond | ArrowTimeUnit__Unknown

datatype ArrowIntervalUnit =
  ArrowIntervalUnit__Year_Month | ArrowIntervalUnit__Day_Time | ArrowIntervalUnit__Unknown

text \<open>The tagged union \<^verbatim>\<open>ArrowType\<close>: the node tag with the attributes of the tag.\<close>

datatype ArrowType =
    ArrowNodeTag__Int int32 bool                 \<comment> \<open>bitWidth, is\_signed\<close>
  | ArrowNodeTag__FloatingPoint ArrowPrecision
  | ArrowNodeTag__Bool
  | ArrowNodeTag__Decimal int32 int32 int32      \<comment> \<open>precision, scale, bitWidth\<close>
  | ArrowNodeTag__Date ArrowDateUnit
  | ArrowNodeTag__Time ArrowTimeUnit
  | ArrowNodeTag__Timestamp ArrowTimeUnit bool   \<comment> \<open>unit, timezone given\<close>
  | ArrowNodeTag__Interval ArrowIntervalUnit
  | ArrowNodeTag__FixedSizeBinary int32          \<comment> \<open>byteWidth\<close>
  | ArrowNodeTag__Utf8
  | ArrowNodeTag__LargeUtf8
  | ArrowNodeTag__Binary
  | ArrowNodeTag__LargeBinary
  | ArrowNodeTag__List
  | ArrowNodeTag__LargeList
  | ArrowNodeTag__Struct
  | ArrowNodeTag__Other                          \<comment> \<open>Null, Union, Map, Duration, ...\<close>

datatype ArrowField = ArrowField
  (field_type: ArrowType)
  (custom_metadata: "(string \<times> string) list")
  (field_children: "ArrowField list")

record ArrowBuffer =
  buf_offset :: int64
  buf_length :: int64

record ArrowFieldNode =
  fnode_length :: int64
  fnode_null_count :: int64

subsection \<open>Record-batch field state\<close>

datatype ArrowTypeId =
    ArrowType__Null | ArrowType__Int | ArrowType__FloatingPoint | ArrowType__Bool
  | ArrowType__Decimal | ArrowType__Date | ArrowType__Time | ArrowType__Timestamp
  | ArrowType__Interval | ArrowType__FixedSizeBinary | ArrowType__Utf8
  | ArrowType__LargeUtf8 | ArrowType__Binary | ArrowType__LargeBinary | ArrowType__List
  | ArrowType__LargeList | ArrowType__Struct

text \<open>The variant part of the union \<^verbatim>\<open>ArrowTypeOptions\<close>.\<close>

datatype ArrowTypeVariant =
    opts_none
  | opts_integer int32 bool            \<comment> \<open>bitWidth, is\_signed\<close>
  | opts_floating_point ArrowPrecision
  | opts_decimal int32 int32 int32     \<comment> \<open>precision, scale, bitWidth\<close>
  | opts_date ArrowDateUnit
  | opts_time ArrowTimeUnit
  | opts_timestamp ArrowTimeUnit
  | opts_fixed_size_binary int32       \<comment> \<open>byteWidth\<close>

record ArrowTypeOptions =
  tag :: ArrowTypeId
  unitsz :: int32
  variant :: ArrowTypeVariant

text \<open>The scalar members \<^verbatim>\<open>RecordBatchFieldState\<close> shares with the cached form
  (``common fields with cache'' and the min/max statistics).\<close>

record field_common =
  atttypid :: Oid
  atttypmod :: int32
  attopts :: ArrowTypeOptions
  nitems :: int64
  null_count :: int64
  nullmap_offset :: off_t
  nullmap_length :: size_t
  values_offset :: off_t
  values_length :: size_t
  extra_offset :: off_t
  extra_length :: size_t
  stat_min :: int128_t
  stat_max :: int128_t
  stat_isnull :: bool

datatype RecordBatchFieldState = RecordBatchFieldState
  (common: field_common)
  (num_children: int32)
  (children: "RecordBatchFieldState list")

text \<open>The cursors of \<^verbatim>\<open>setupRecordBatchContext\<close>: what lies between
  \<^verbatim>\<open>buffer_curr\<close> and \<^verbatim>\<open>buffer_tail\<close>, and between \<^verbatim>\<open>fnode_curr\<close> and
  \<^verbatim>\<open>fnode_tail\<close>.\<close>

record setupRecordBatchContext =
  buffers :: "ArrowBuffer list"
  fnodes :: "ArrowFieldNode list"

subsection \<open>Assigning the buffers of one field\<close>

text \<open>\<^verbatim>\<open>buffer_curr = con->buffer_curr++; if (buffer_curr >= con->buffer_tail) elog(ERROR, ...)\<close>\<close>

definition next_buffer ::
  "setupRecordBatchContext \<Rightarrow> error + (ArrowBuffer \<times> setupRecordBatchContext)" where
  "next_buffer con =
     (case buffers con of
        [] \<Rightarrow> Inl LessBuffers
      | b # rest \<Rightarrow> Inr (b, con\<lparr>buffers := rest\<rparr>))"

definition assign_nullmap ::
  "field_common \<Rightarrow> setupRecordBatchContext \<Rightarrow> error + (field_common \<times> setupRecordBatchContext)" where
  "assign_nullmap fstate con =
     (case next_buffer con of
        Inl e \<Rightarrow> Inl e
      | Inr (b, con') \<Rightarrow>
          if 0 <s null_count fstate then
            (let fstate' = fstate\<lparr>nullmap_offset := buf_offset b, nullmap_length := buf_length b\<rparr>
             in if nullmap_length fstate' < BITMAPLEN (nitems fstate') then Inl NullmapTooSmall
                else if nullmap_offset fstate' \<noteq> MAXALIGN (nullmap_offset fstate') then Inl NullmapNotAligned
                else Inr (fstate', con'))
          else Inr (fstate, con'))"

definition least_length :: "field_common \<Rightarrow> bool \<Rightarrow> size_t" where
  "least_length fstate has_extra =
     (if unitsz (attopts fstate) <s 0 then BITMAPLEN (nitems fstate)
      else if \<not> has_extra then scast (unitsz (attopts fstate)) * nitems fstate
      else scast (unitsz (attopts fstate)) * (nitems fstate + 1))"

definition assign_values ::
  "field_common \<Rightarrow> setupRecordBatchContext \<Rightarrow> bool \<Rightarrow> error + (field_common \<times> setupRecordBatchContext)" where
  "assign_values fstate con has_extra =
     (if unitsz (attopts fstate) \<noteq> 0 then
        (case next_buffer con of
           Inl e \<Rightarrow> Inl e
         | Inr (b, con') \<Rightarrow>
             (let fstate' = fstate\<lparr>values_offset := buf_offset b, values_length := buf_length b\<rparr>
              in if values_length fstate' < MAXALIGN (least_length fstate has_extra) then Inl ValuesTooSmall
                 else if values_offset fstate' \<noteq> MAXALIGN (values_offset fstate') then Inl ValuesNotAligned
                 else Inr (fstate', con')))
      else Inr (fstate, con))"

definition assign_extra ::
  "field_common \<Rightarrow> setupRecordBatchContext \<Rightarrow> bool \<Rightarrow> error + (field_common \<times> setupRecordBatchContext)" where
  "assign_extra fstate con has_extra =
     (if has_extra then
        (case next_buffer con of
           Inl e \<Rightarrow> Inl e
         | Inr (b, con') \<Rightarrow>
             (let fstate' = fstate\<lparr>extra_offset := buf_offset b, extra_length := buf_length b\<rparr>
              in if extra_offset fstate' \<noteq> MAXALIGN (extra_offset fstate') then Inl ExtraNotAligned
                 else Inr (fstate', con')))
      else Inr (fstate, con))"

text \<open>\<^verbatim>\<open>__assignRecordBatchFieldStateBuffer\<close>: the nullmap, then the values, then the
  extra buffer; the first \<^verbatim>\<open>elog(ERROR)\<close> ends the walk.\<close>

definition assignRecordBatchFieldStateBuffer ::
  "field_common \<Rightarrow> setupRecordBatchContext \<Rightarrow> bool \<Rightarrow> error + (field_common \<times> setupRecordBatchContext)" where
  "assignRecordBatchFieldStateBuffer fstate con has_extra =
     (case assign_nullmap fstate con of
        Inl e \<Rightarrow> Inl e
      | Inr (fstate1, con1) \<Rightarrow>
          (case assign_values fstate1 con1 has_extra of
             Inl e \<Rightarrow> Inl e
           | Inr (fstate2, con2) \<Rightarrow> assign_extra fstate2 con2 has_extra))"

subsection \<open>Host catalog\<close>

text \<open>
  The type binder consults the host catalog through PostgreSQL's interface. The catalog
  is a parameter of the model: \<open>namespace_oid\<close> is \<^verbatim>\<open>get_namespace_oid(name, true)\<close>,
  \<open>typename_oid\<close> is the \<^verbatim>\<open>TYPENAMENSP\<close> cache (both answer \<open>InvalidOid\<close> when there
  is no such row), \<open>array_type\<close> is \<^verbatim>\<open>get_array_type\<close>, \<open>composite_relations\<close> lists
  the catalog rows of composite kind with their attribute count in scan order,
  \<open>type_usage_granted\<close> is \<^verbatim>\<open>pg_type_aclcheck(..., ACL_USAGE) == ACLCHECK_OK\<close> and
  \<open>rowtype_tupdesc\<close> is \<^verbatim>\<open>lookup_rowtype_tupdesc_noerror\<close>, giving the attribute types.
\<close>

record pg_catalog =
  namespace_oid :: "string \<Rightarrow> Oid"
  typename_oid :: "string \<Rightarrow> Oid \<Rightarrow> Oid"
  array_type :: "Oid \<Rightarrow> Oid"
  composite_relations :: "(Oid \<times> 16 word) list"
  type_usage_granted :: "Oid \<Rightarrow> bool"
  rowtype_tupdesc :: "Oid \<Rightarrow> Oid list option"

definition InvalidOid :: Oid where "InvalidOid = 0"
definition OidIsValid :: "Oid \<Rightarrow> bool" where "OidIsValid oid = (oid \<noteq> InvalidOid)"
definition PG_CATALOG_NAMESPACE :: Oid where "PG_CATALOG_NAMESPACE = 11"
definition BOOLOID :: Oid where "BOOLOID = 16"
definition BYTEAOID :: Oid where "BYTEAOID = 17"
definition INT8OID :: Oid where "INT8OID = 20"
definition INT2OID :: Oid where "INT2OID = 21"
definition INT4OID :: Oid where "INT4OID = 23"
definition TEXTOID :: Oid where "TEXTOID = 25"
definition FLOAT4OID :: Oid where "FLOAT4OID = 700"
definition FLOAT8OID :: Oid where "FLOAT8OID = 701"
definition MACADDROID :: Oid where "MACADDROID = 829"
definition INETOID :: Oid where "INETOID = 869"
definition DATEOID :: Oid where "DATEOID = 1082"
definition TIMEOID :: Oid where "TIMEOID = 1083"
definition TIMESTAMPOID :: Oid where "TIMESTAMPOID = 1114"
definition TIMESTAMPTZOID :: Oid where "TIMESTAMPTZOID = 1184"
definition INTERVALOID :: Oid where "INTERVALOID = 1186"
definition NUMERICOID :: Oid where "NUMERICOID = 1700"
definition UUIDOID :: Oid where "UUIDOID = 2950"
definition VARHDRSZ :: int32 where "VARHDRSZ = 4"
definition BLCKSZ :: int32 where "BLCKSZ = 8192"

subsection \<open>The type hint of a field\<close>

text \<open>\<^verbatim>\<open>pos = strchr(namebuf, '.')\<close>: the text before the first dot and the text after it.\<close>

definition split_at_dot :: "string \<Rightarrow> (string \<times> string) option" where
  "split_at_dot s =
     (if CHR ''.'' \<in> set s
      then Some (takeWhile (\<lambda>c. c \<noteq> CHR ''.'') s, tl (dropWhile (\<lambda>c. c \<noteq> CHR ''.'') s))
      else None)"

text \<open>\<^verbatim>\<open>arrowFieldGetPGTypeHint\<close>: the first \<^verbatim>\<open>pg_type\<close> entry that names a type of the
  catalog; an entry with an unknown schema or an unknown type name is passed over.\<close>

fun pg_type_hint_loop :: "pg_catalog \<Rightarrow> (string \<times> string) list \<Rightarrow> Oid" where
  "pg_type_hint_loop cat [] = InvalidOid"
| "pg_type_hint_loop cat ((key, val) # kvs) =
     (if key \<noteq> ''pg_type'' then pg_type_hint_loop cat kvs
      else
        (case split_at_dot val of
           Some (nspname, typname) \<Rightarrow>
             (let nsp = namespace_oid cat nspname
              in if \<not> OidIsValid nsp then pg_type_hint_loop cat kvs
                 else if OidIsValid (typename_oid cat typname nsp) then typename_oid cat typname nsp
                 else pg_type_hint_loop cat kvs)
         | None \<Rightarrow>
             (if OidIsValid (typename_oid cat val PG_CATALOG_NAMESPACE)
              then typename_oid cat val PG_CATALOG_NAMESPACE
              else pg_type_hint_loop cat kvs)))"

definition arrowFieldGetPGTypeHint :: "pg_catalog \<Rightarrow> ArrowField \<Rightarrow> Oid" where
  "arrowFieldGetPGTypeHint cat field = pg_type_hint_loop cat (custom_metadata field)"

subsection \<open>The type binder\<close>

text \<open>What one branch of the switch on the node tag decides before the buffers are
  assigned: the type options, the host type and its modifier, and whether the field has
  an extra buffer.\<close>

record type_binding =
  b_attopts :: ArrowTypeOptions
  b_atttypid :: Oid
  b_atttypmod :: int32
  b_has_extra :: bool

definition binding ::
  "ArrowTypeId \<Rightarrow> int32 \<Rightarrow> ArrowTypeVariant \<Rightarrow> Oid \<Rightarrow> int32 \<Rightarrow> bool \<Rightarrow> error + type_binding" where
  "binding tg usz var typid typmod extra =
     Inr \<lparr>b_attopts = \<lparr>tag = tg, unitsz = usz, variant = var\<rparr>,
          b_atttypid = typid, b_atttypmod = typmod, b_has_extra = extra\<rparr>"

text \<open>The branches of \<^verbatim>\<open>__buildRecordBatchFieldState\<close> for the tags without children.
  \<open>None\<close> stands for the tags the function treats elsewhere (List, LargeList, Struct and
  the default branch).\<close>

fun scalar_binding :: "pg_catalog \<Rightarrow> Oid \<Rightarrow> ArrowType \<Rightarrow> (error + type_binding) option" where
  "scalar_binding cat hint_oid (ArrowNodeTag__Int bitWidth is_signed) = Some
     (if bitWidth = 8 then
        binding ArrowType__Int 1 (opts_integer bitWidth is_signed)
          (typename_oid cat ''int1'' PG_CATALOG_NAMESPACE) (- 1) False
      else if bitWidth = 16 then
        binding ArrowType__Int 2 (opts_integer bitWidth is_signed) INT2OID (- 1) False
      else if bitWidth = 32 then
        binding ArrowType__Int 4 (opts_integer bitWidth is_signed) INT4OID (- 1) False
      else if bitWidth = 64 then
        binding ArrowType__Int 8 (opts_integer bitWidth is_signed) INT8OID (- 1) False
      else Inl UnsupportedType)"
| "scalar_binding cat hint_oid (ArrowNodeTag__FloatingPoint precision) = Some
     (case precision of
        ArrowPrecision__Half \<Rightarrow>
          binding ArrowType__FloatingPoint 2 (opts_floating_point precision)
            (typename_oid cat ''float2'' PG_CATALOG_NAMESPACE) (- 1) False
      | ArrowPrecision__Single \<Rightarrow>
          binding ArrowType__FloatingPoint 4 (opts_floating_point precision) FLOAT4OID (- 1) False
      | ArrowPrecision__Double \<Rightarrow>
          binding ArrowType__FloatingPoint 8 (opts_floating_point precision) FLOAT8OID (- 1) False
      | ArrowPrecision__Unknown \<Rightarrow> Inl UnsupportedType)"
| "scalar_binding cat hint_oid ArrowNodeTag__Bool = Some
     (binding ArrowType__Bool (- 1) opts_none BOOLOID (- 1) False)"
| "scalar_binding cat hint_oid (ArrowNodeTag__Decimal precision scale bitWidth) = Some
     (if bitWidth \<noteq> 128 then Inl UnsupportedType
      else binding ArrowType__Decimal 16 (opts_decimal precision scale bitWidth) NUMERICOID (- 1) False)"
| "scalar_binding cat hint_oid (ArrowNodeTag__Date unit) = Some
     (case unit of
        ArrowDateUnit__Day \<Rightarrow> binding ArrowType__Date 4 (opts_date unit) DATEOID (- 1) False
      | ArrowDateUnit__MilliSecond \<Rightarrow> binding ArrowType__Date 4 (opts_date unit) DATEOID (- 1) False
      | ArrowDateUnit__Unknown \<Rightarrow> Inl UnsupportedType)"
| "scalar_binding cat hint_oid (ArrowNodeTag__Time unit) = Some
     (case unit of
        ArrowTimeUnit__Second \<Rightarrow> binding ArrowType__Time 4 (opts_time unit) TIMEOID (- 1) False
      | ArrowTimeUnit__MilliSecond \<Rightarrow> binding ArrowType__Time 4 (opts_time unit) TIMEOID (- 1) False
      | ArrowTimeUnit__MicroSecond \<Rightarrow> binding ArrowType__Time 8 (opts_time unit) TIMEOID (- 1) False
      | ArrowTimeUnit__NanoSecond \<Rightarrow> binding ArrowType__Time 8 (opts_time unit) TIMEOID (- 1) False
      | ArrowTimeUnit__Unknown \<Rightarrow> Inl UnsupportedType)"
| "scalar_binding cat hint_oid (ArrowNodeTag__Timestamp unit timezone) = Some
     (case unit of
        ArrowTimeUnit__Unknown \<Rightarrow> Inl UnsupportedType
      | _ \<Rightarrow> binding ArrowType__Timestamp 8 (opts_timestamp unit)
               (if timezone then TIMESTAMPTZOID else TIMESTAMPOID) (- 1) False)"
| "scalar_binding cat hint_oid (ArrowNodeTag__Interval unit) = Some
     (case unit of
        ArrowIntervalUnit__Year_Month \<Rightarrow> binding ArrowType__Interval 4 opts_none INTERVALOID (- 1) False
      | ArrowIntervalUnit__Day_Time \<Rightarrow> binding ArrowType__Interval 8 opts_none INTERVALOID (- 1) False
      | ArrowIntervalUnit__Unknown \<Rightarrow> Inl UnsupportedType)"
| "scalar_binding cat hint_oid (ArrowNodeTag__FixedSizeBinary byteWidth) = Some
     (if byteWidth \<le>s 0 \<or> BLCKSZ <s byteWidth then Inl UnsupportedType
      else if hint_oid = MACADDROID \<and> byteWidth = 6 then
        binding ArrowType__FixedSizeBinary byteWidth (opts_fixed_size_binary byteWidth) MACADDROID (- 1) False
      else if hint_oid = INETOID \<and> (byteWidth = 4 \<or> byteWidth = 16) then
        binding ArrowType__FixedSizeBinary byteWidth (opts_fixed_size_binary byteWidth) INETOID (- 1) False
      else
        binding ArrowType__FixedSizeBinary byteWidth (opts_fixed_size_binary byteWidth) BYTEAOID
          (VARHDRSZ + byteWidth) False)"
| "scalar_binding cat hint_oid ArrowNodeTag__Utf8 = Some
     (binding ArrowType__Utf8 4 opts_none TEXTOID (- 1) True)"
| "scalar_binding cat hint_oid ArrowNodeTag__LargeUtf8 = Some
     (binding ArrowType__LargeUtf8 8 opts_none TEXTOID (- 1) True)"
| "scalar_binding cat hint_oid ArrowNodeTag__Binary = Some
     (binding ArrowType__Binary 4 opts_none BYTEAOID (- 1) True)"
| "scalar_binding cat hint_oid ArrowNodeTag__LargeBinary = Some
     (binding ArrowType__LargeBinary 8 opts_none BYTEAOID (- 1) True)"
| "scalar_binding cat hint_oid ArrowNodeTag__List = None"
| "scalar_binding cat hint_oid ArrowNodeTag__LargeList = None"
| "scalar_binding cat hint_oid ArrowNodeTag__Struct = None"
| "scalar_binding cat hint_oid ArrowNodeTag__Other = None"

text \<open>The field state as \<^verbatim>\<open>__buildRecordBatchFieldState\<close> initialises it: the caller's
  \<^verbatim>\<open>palloc0\<close> zeroes the members the function does not set.\<close>

definition init_fstate :: "ArrowFieldNode \<Rightarrow> field_common" where
  "init_fstate fnode =
     \<lparr>atttypid = InvalidOid, atttypmod = - 1,
      attopts = \<lparr>tag = ArrowType__Null, unitsz = 0, variant = opts_none\<rparr>,
      nitems = fnode_length fnode, null_count = fnode_null_count fnode,
      nullmap_offset = 0, nullmap_length = 0, values_offset = 0, values_length = 0,
      extra_offset = 0, extra_length = 0, stat_min = 0, stat_max = 0, stat_isnull = True\<rparr>"

text \<open>\<^verbatim>\<open>__assignRecordBatchFieldStateComposite\<close>: the hinted type is tried first, then the
  composite rows of the catalog with the same number of attributes (the scan leaves the
  hinted one out); the first one the user may use whose attribute types are those of the
  children is bound.\<close>

definition composite_candidates :: "pg_catalog \<Rightarrow> RecordBatchFieldState \<Rightarrow> Oid \<Rightarrow> Oid list" where
  "composite_candidates cat fstate hint_oid =
     (if OidIsValid hint_oid then [hint_oid] else []) @
     map fst (filter (\<lambda>(oid, relnatts). relnatts = ucast (num_children fstate)
                                          \<and> (OidIsValid hint_oid \<longrightarrow> oid \<noteq> hint_oid))
                     (composite_relations cat))"

definition composite_matches :: "pg_catalog \<Rightarrow> RecordBatchFieldState \<Rightarrow> Oid \<Rightarrow> bool" where
  "composite_matches cat fstate comp_oid =
     (type_usage_granted cat comp_oid \<and>
      (case rowtype_tupdesc cat comp_oid of
         None \<Rightarrow> False
       | Some atts \<Rightarrow>
           word_of_nat (length atts) = num_children fstate \<and>
           atts = map (\<lambda>child. atttypid (common child)) (take (length atts) (children fstate))))"

definition assignRecordBatchFieldStateComposite ::
  "pg_catalog \<Rightarrow> RecordBatchFieldState \<Rightarrow> Oid \<Rightarrow> error + RecordBatchFieldState" where
  "assignRecordBatchFieldStateComposite cat fstate hint_oid =
     (case find (composite_matches cat fstate) (composite_candidates cat fstate hint_oid) of
        None \<Rightarrow> Inl NoCompatibleComposite
      | Some comp_oid \<Rightarrow>
          Inr (RecordBatchFieldState ((common fstate)\<lparr>atttypid := comp_oid\<rparr>)
                 (num_children fstate) (children fstate)))"

text \<open>\<^verbatim>\<open>__buildRecordBatchFieldState\<close>, with the walk over the children of a Struct.\<close>

fun buildRecordBatchFieldState ::
  "pg_catalog \<Rightarrow> setupRecordBatchContext \<Rightarrow> ArrowField \<Rightarrow> nat
     \<Rightarrow> error + (RecordBatchFieldState \<times> setupRecordBatchContext)"
and buildRecordBatchFieldStateChildren ::
  "pg_catalog \<Rightarrow> setupRecordBatchContext \<Rightarrow> ArrowField list \<Rightarrow> nat
     \<Rightarrow> error + (RecordBatchFieldState list \<times> setupRecordBatchContext)"
where
  "buildRecordBatchFieldState cat con (ArrowField t md cs) depth =
     (case fnodes con of
        [] \<Rightarrow> Inl LessFieldNodes
      | fnode # fnodes_rest \<Rightarrow>
         (let hint_oid = pg_type_hint_loop cat md;
              con0 = con\<lparr>fnodes := fnodes_rest\<rparr>;
              fstate0 = init_fstate fnode
          in case scalar_binding cat hint_oid t of
               Some (Inl e) \<Rightarrow> Inl e
             | Some (Inr b) \<Rightarrow>
                 (case assignRecordBatchFieldStateBuffer
                         (fstate0\<lparr>atttypid := b_atttypid b, atttypmod := b_atttypmod b,
                                  attopts := b_attopts b\<rparr>) con0 (b_has_extra b) of
                    Inl e \<Rightarrow> Inl e
                  | Inr (fstate1, con1) \<Rightarrow> Inr (RecordBatchFieldState fstate1 0 [], con1))
             | None \<Rightarrow>
                 (if t = ArrowNodeTag__List \<or> t = ArrowNodeTag__LargeList then
                    (case cs of
                       [child] \<Rightarrow>
                         (if 0 < depth then Inl UnsupportedNesting
                          else
                            (case assignRecordBatchFieldStateBuffer
                                    (fstate0\<lparr>attopts :=
                                       (if t = ArrowNodeTag__List
                                        then \<lparr>tag = ArrowType__List, unitsz = 4, variant = opts_none\<rparr>
                                        else \<lparr>tag = ArrowType__LargeList, unitsz = 8, variant = opts_none\<rparr>)\<rparr>)
                                    con0 False of
                               Inl e \<Rightarrow> Inl e
                             | Inr (fstate1, con1) \<Rightarrow>
                                 (case buildRecordBatchFieldState cat con1 child (depth + 1) of
                                    Inl e \<Rightarrow> Inl e
                                  | Inr (element, con2) \<Rightarrow>
                                      (let typid = array_type cat (atttypid (common element))
                                       in if \<not> OidIsValid typid then Inl NoArrayType
                                          else Inr (RecordBatchFieldState (fstate1\<lparr>atttypid := typid\<rparr>)
                                                      1 [element], con2)))))
                     | _ \<Rightarrow> Inl ListCorrupted)
                  else if t = ArrowNodeTag__Struct then
                    (if 0 < depth then Inl UnsupportedNesting
                     else
                       (case assignRecordBatchFieldStateBuffer
                               (fstate0\<lparr>attopts := \<lparr>tag = ArrowType__Struct, unitsz = 0, variant = opts_none\<rparr>\<rparr>)
                               con0 False of
                          Inl e \<Rightarrow> Inl e
                        | Inr (fstate1, con1) \<Rightarrow>
                            (case buildRecordBatchFieldStateChildren cat con1 cs (depth + 1) of
                               Inl e \<Rightarrow> Inl e
                             | Inr (chs, con2) \<Rightarrow>
                                 (case assignRecordBatchFieldStateComposite cat
                                         (RecordBatchFieldState fstate1 (word_of_nat (length cs)) chs) hint_oid of
                                    Inl e \<Rightarrow> Inl e
                                  | Inr fstate2 \<Rightarrow> Inr (fstate2, con2)))))
                  else Inl UnsupportedType)))"
| "buildRecordBatchFieldStateChildren cat con [] depth = Inr ([], con)"
| "buildRecordBatchFieldStateChildren cat con (c # cs) depth =
     (case buildRecordBatchFieldState cat con c depth of
        Inl e \<Rightarrow> Inl e
      | Inr (child, con1) \<Rightarrow>
          (case buildRecordBatchFieldStateChildren cat con1 cs depth of
             Inl e \<Rightarrow> Inl e
           | Inr (chs, con2) \<Rightarrow> Inr (child # chs, con2)))"

subsection \<open>File-set resolver\<close>

text \<open>
  The resolver reads the file system and the C library through \<^verbatim>\<open>access(path, R_OK)\<close>,
  \<^verbatim>\<open>AllocateDir\<close>/\<^verbatim>\<open>ReadDir\<close> (the names of a directory in enumeration order, or nothing
  when the directory cannot be read, which PostgreSQL reports as an error) and \<^verbatim>\<open>atoi\<close>;
  the helper \<^verbatim>\<open>__trim\<close> of the extension is declared outside the source files at hand.
  All four are parameters of the model.
\<close>

record environment =
  access_R_OK :: "string \<Rightarrow> bool"
  read_dir :: "string \<Rightarrow> string list option"
  atoi :: "string \<Rightarrow> int32"
  trim :: "string \<Rightarrow> string"

text \<open>\<^verbatim>\<open>strtok_r(str, delim, &saveptr)\<close> on the text \<open>str\<close> with one delimiter: the leading
  delimiters are passed over; the token runs to the next delimiter, which is overwritten
  by the terminator; \<open>saveptr\<close> is the text after it. \<open>None\<close> is the null pointer.\<close>

definition strtok_r :: "string \<Rightarrow> char \<Rightarrow> (string \<times> string) option" where
  "strtok_r str delim =
     (let s = dropWhile (\<lambda>c. c = delim) str
      in if s = [] then None
         else Some (takeWhile (\<lambda>c. c \<noteq> delim) s, drop 1 (dropWhile (\<lambda>c. c \<noteq> delim) s)))"

text \<open>The text at \<open>str\<close> after that call, read as a C string: the terminator written at the
  end of the first token cuts it there.\<close>

definition strtok_r_buffer :: "string \<Rightarrow> char \<Rightarrow> string" where
  "strtok_r_buffer str delim =
     takeWhile (\<lambda>c. c = delim) str @ takeWhile (\<lambda>c. c \<noteq> delim) (dropWhile (\<lambda>c. c = delim) str)"

text \<open>
  The loop over the \<^verbatim>\<open>files\<close> option:
  \<^verbatim>\<open>while ((tok = strtok_r(temp, ",", &saveptr)) != NULL) { tok = __trim(tok); ... }\<close>.
  Every call passes \<^verbatim>\<open>temp\<close> itself, so every call starts again at the head of the same
  buffer. The loop may not return: it is a partial function, \<open>None\<close> meaning that it does
  not return.
\<close>

partial_function (option) files_loop ::
  "environment \<Rightarrow> string \<Rightarrow> string list \<Rightarrow> (error + string list) option" where
  "files_loop env temp filesList =
     (case strtok_r temp CHR '','' of
        None \<Rightarrow> Some (Inr filesList)
      | Some (tok, saveptr) \<Rightarrow>
          if \<not> access_R_OK env (trim env tok) then Some (Inl (UnableToAccess (trim env tok)))
          else files_loop env (strtok_r_buffer temp CHR '','') (filesList @ [trim env tok]))"

record extract_state =
  filesList :: "string list"
  dir_path :: "string option"
  dir_suffix :: "string option"
  parallel_nworkers :: int32

text \<open>The loop over the options; an option is the pair of \<^verbatim>\<open>defname\<close> and the string of
  \<^verbatim>\<open>arg\<close>.\<close>

fun options_loop ::
  "environment \<Rightarrow> (string \<times> string) list \<Rightarrow> extract_state \<Rightarrow> (error + extract_state) option" where
  "options_loop env [] s = Some (Inr s)"
| "options_loop env ((defname, arg) # rest) s =
     (if defname = ''file'' then
        (if \<not> access_R_OK env arg then Some (Inl (UnableToAccess arg))
         else options_loop env rest (s\<lparr>filesList := filesList s @ [arg]\<rparr>))
      else if defname = ''files'' then
        (case files_loop env arg (filesList s) of
           None \<Rightarrow> None
         | Some (Inl e) \<Rightarrow> Some (Inl e)
         | Some (Inr fl) \<Rightarrow> options_loop env rest (s\<lparr>filesList := fl\<rparr>))
      else if defname = ''dir'' then options_loop env rest (s\<lparr>dir_path := Some arg\<rparr>)
      else if defname = ''suffix'' then options_loop env rest (s\<lparr>dir_suffix := Some arg\<rparr>)
      else if defname = ''parallel_workers'' then
        (if 0 \<le>s parallel_nworkers s then Some (Inl ParallelWorkersTwice)
         else options_loop env rest (s\<lparr>parallel_nworkers := atoi env arg\<rparr>))
      else Some (Inl (UnknownOption defname)))"

text \<open>\<^verbatim>\<open>pos = strrchr(d_name, '.')\<close> and the comparison of \<^verbatim>\<open>pos + 1\<close> with the suffix.\<close>

definition suffix_matches :: "string \<Rightarrow> string \<Rightarrow> bool" where
  "suffix_matches d_name suffix =
     (CHR ''.'' \<in> set d_name \<and> rev (takeWhile (\<lambda>c. c \<noteq> CHR ''.'') (rev d_name)) = suffix)"

text \<open>The loop over the entries of the directory.\<close>

fun dir_loop :: "environment \<Rightarrow> string \<Rightarrow> string option \<Rightarrow> string list \<Rightarrow> string list \<Rightarrow> string list" where
  "dir_loop env path suffix [] fl = fl"
| "dir_loop env path suffix (d_name # rest) fl =
     (if d_name = ''.'' \<or> d_name = ''..'' then dir_loop env path suffix rest fl
      else if (case suffix of None \<Rightarrow> False | Some sfx \<Rightarrow> \<not> suffix_matches d_name sfx)
        then dir_loop env path suffix rest fl
      else if \<not> access_R_OK env (path @ ''/'' @ d_name) then dir_loop env path suffix rest fl
      else dir_loop env path suffix rest (fl @ [path @ ''/'' @ d_name]))"

text \<open>\<^verbatim>\<open>arrowFdwExtractFilesList\<close>: the list of files and the number of parallel workers.\<close>

definition arrowFdwExtractFilesList ::
  "environment \<Rightarrow> (string \<times> string) list \<Rightarrow> (error + (string list \<times> int32)) option" where
  "arrowFdwExtractFilesList env options_list =
     (case options_loop env options_list
             \<lparr>filesList = [], dir_path = None, dir_suffix = None, parallel_nworkers = - 1\<rparr> of
        None \<Rightarrow> None
      | Some (Inl e) \<Rightarrow> Some (Inl e)
      | Some (Inr s) \<Rightarrow>
          if dir_suffix s \<noteq> None \<and> dir_path s = None then Some (Inl SuffixWithoutDir)
          else
            (case dir_path s of
               None \<Rightarrow> Some (Inr (filesList s, parallel_nworkers s))
             | Some path \<Rightarrow>
                 (case read_dir env path of
                    None \<Rightarrow> Some (Inl DirReadFailed)
                  | Some entries \<Rightarrow>
                      Some (Inr (dir_loop env path (dir_suffix s) entries (filesList s),
                                 parallel_nworkers s)))))"

subsection \<open>Statistics binder\<close>

lemma strtok_r_saveptr_shorter:
  "strtok_r str delim = Some (tok, saveptr) \<Longrightarrow> length saveptr < length str"
proof -
  assume a: "strtok_r str delim = Some (tok, saveptr)"
  define s where "s = dropWhile (\<lambda>c. c = delim) str"
  from a have ne: "s \<noteq> []" and sp: "saveptr = drop 1 (dropWhile (\<lambda>c. c \<noteq> delim) s)"
    by (auto simp add: strtok_r_def s_def Let_def split: if_splits)
  have hd: "hd s \<noteq> delim" using ne hd_dropWhile [of "\<lambda>c. c = delim" str] by (simp add: s_def)
  have "length (dropWhile (\<lambda>c. c \<noteq> delim) s) < length s"
  proof (cases s)
    case Nil
    then show ?thesis using ne by simp
  next
    case (Cons a list)
    then have "dropWhile (\<lambda>c. c \<noteq> delim) s = dropWhile (\<lambda>c. c \<noteq> delim) list"
      using hd by simp
    then show ?thesis using Cons length_dropWhile_le [of "\<lambda>c. c \<noteq> delim" list] by simp
  qed
  moreover have "length s \<le> length str" by (simp add: s_def length_dropWhile_le)
  ultimately show ?thesis using sp by simp
qed

text \<open>The tokens a loop reads with \<^verbatim>\<open>strtok_r(str, delim, &pos)\<close> first and
  \<^verbatim>\<open>strtok_r(NULL, delim, &pos)\<close> afterwards, until the null pointer.\<close>

function tokens :: "string \<Rightarrow> char \<Rightarrow> string list" where
  "tokens str delim =
     (case strtok_r str delim of
        None \<Rightarrow> []
      | Some (tok, saveptr) \<Rightarrow> tok # tokens saveptr delim)"
  by pat_completeness auto
termination
  by (relation "measure (\<lambda>(str, delim). length str)") (auto simp add: strtok_r_saveptr_shorter)

definition isdigit :: "char \<Rightarrow> bool" where
  "isdigit c = (of_char c \<ge> (48::nat) \<and> of_char c \<le> (57::nat))"

text \<open>\<^verbatim>\<open>while (isdigit(*tok)) { ival = 10 * ival + (*tok - '0'); tok++; }\<close>\<close>

fun atoi128_digits :: "int128_t \<Rightarrow> string \<Rightarrow> int128_t \<times> string" where
  "atoi128_digits ival [] = (ival, [])"
| "atoi128_digits ival (c # cs) =
     (if isdigit c then atoi128_digits (10 * ival + (of_char c - 48)) cs else (ival, c # cs))"

text \<open>\<^verbatim>\<open>__atoi128(tok, &isnull)\<close>: the value and the flag afterwards (the flag is only ever
  raised).\<close>

definition atoi128 :: "string \<Rightarrow> bool \<Rightarrow> int128_t \<times> bool" where
  "atoi128 tok p_isnull =
     (let is_minus = (case tok of [] \<Rightarrow> False | c # cs \<Rightarrow> c = CHR ''-'');
          (ival, rest) = atoi128_digits 0 (if is_minus then tl tok else tok);
          isnull1 = (if rest \<noteq> [] then True else p_isnull)
      in if is_minus then (- ival, if ival = 0 then True else isnull1)
         else (ival, isnull1))"

text \<open>The switch of \<^verbatim>\<open>__parseArrowFieldStatsBinary\<close> on the type: the unit size of a
  statistics slot in bytes, \<open>None\<close> where the function returns false.\<close>

fun stats_unitsz :: "ArrowType \<Rightarrow> nat option" where
  "stats_unitsz (ArrowNodeTag__Int bitWidth is_signed) =
     (if bitWidth = 8 then Some 1 else if bitWidth = 16 then Some 2
      else if bitWidth = 32 then Some 4 else if bitWidth = 64 then Some 8 else None)"
| "stats_unitsz (ArrowNodeTag__FloatingPoint precision) =
     (case precision of
        ArrowPrecision__Half \<Rightarrow> Some 2
      | ArrowPrecision__Single \<Rightarrow> Some 4
      | ArrowPrecision__Double \<Rightarrow> Some 8
      | ArrowPrecision__Unknown \<Rightarrow> None)"
| "stats_unitsz (ArrowNodeTag__Decimal precision scale bitWidth) = Some 16"
| "stats_unitsz (ArrowNodeTag__Date unit) =
     (case unit of
        ArrowDateUnit__Day \<Rightarrow> Some 4
      | ArrowDateUnit__MilliSecond \<Rightarrow> Some 8
      | ArrowDateUnit__Unknown \<Rightarrow> None)"
| "stats_unitsz (ArrowNodeTag__Time unit) =
     (case unit of
        ArrowTimeUnit__Second \<Rightarrow> Some 4
      | ArrowTimeUnit__MilliSecond \<Rightarrow> Some 4
      | ArrowTimeUnit__MicroSecond \<Rightarrow> Some 8
      | ArrowTimeUnit__NanoSecond \<Rightarrow> Some 8
      | ArrowTimeUnit__Unknown \<Rightarrow> None)"
| "stats_unitsz (ArrowNodeTag__Timestamp unit timezone) =
     (case unit of ArrowTimeUnit__Unknown \<Rightarrow> None | _ \<Rightarrow> Some 8)"
| "stats_unitsz _ = None"

text \<open>The three arrays of one field: one slot per record batch. A slot of the value arrays
  holds \<open>unitsz\<close> bytes, kept here as the low bytes of a 128-bit word.\<close>

record stats_arrays =
  sa_isnull :: "bool list"
  sa_min_values :: "int128_t list"
  sa_max_values :: "int128_t list"

text \<open>\<^verbatim>\<open>memcpy(dst, &src, unitsz)\<close> on a little-endian machine: the low \<open>unitsz\<close> bytes of
  \<open>dst\<close> become those of \<open>src\<close>.\<close>

definition memcpy_low :: "nat \<Rightarrow> int128_t \<Rightarrow> int128_t \<Rightarrow> int128_t" where
  "memcpy_low usz dst src = (dst AND NOT (mask (8 * usz))) OR (src AND mask (8 * usz))"

text \<open>The loop of \<^verbatim>\<open>__parseArrowFieldStatsBinary\<close> over the two token lists. It returns, as
  the loop leaves them, whether \<^verbatim>\<open>tok1\<close> and \<^verbatim>\<open>tok2\<close> are null, the index and the arrays.\<close>

fun parse_loop ::
  "(string \<Rightarrow> string) \<Rightarrow> nat \<Rightarrow> nat \<Rightarrow> string list \<Rightarrow> string list \<Rightarrow> nat \<Rightarrow> stats_arrays
     \<Rightarrow> bool \<times> bool \<times> nat \<times> stats_arrays" where
  "parse_loop trm usz n_rooms (tok1 # toks1) (tok2 # toks2) index arrays =
     (if index < n_rooms then
        (let (vmin, isnull1) = atoi128 (trm tok1) False;
             (vmax, isnull2) = atoi128 (trm tok2) isnull1
         in parse_loop trm usz n_rooms toks1 toks2 (index + 1)
              (if isnull2 then arrays\<lparr>sa_isnull := (sa_isnull arrays)[index := True]\<rparr>
               else arrays\<lparr>sa_min_values := (sa_min_values arrays)[index := memcpy_low usz 0 vmin],
                           sa_max_values := (sa_max_values arrays)[index := memcpy_low usz 0 vmax]\<rparr>))
      else (False, False, index, arrays))"
| "parse_loop trm usz n_rooms toks1 toks2 index arrays = (toks1 = [], toks2 = [], index, arrays)"

datatype arrowFieldStatsBinary = arrowFieldStatsBinary
  (nrooms: "32 word")
  (stats_unit: int32)
  (stats: "stats_arrays option")
  (nfields: int32)
  (subfields: "arrowFieldStatsBinary list")

text \<open>\<^verbatim>\<open>__parseArrowFieldStatsBinary\<close>: the arrays on success, nothing where it returns false.\<close>

definition parseArrowFieldStatsBinary ::
  "(string \<Rightarrow> string) \<Rightarrow> 32 word \<Rightarrow> ArrowType \<Rightarrow> string \<Rightarrow> string \<Rightarrow> (nat \<times> stats_arrays) option" where
  "parseArrowFieldStatsBinary trm n_rooms t min_tokens max_tokens =
     (case stats_unitsz t of
        None \<Rightarrow> None
      | Some usz \<Rightarrow>
          (case parse_loop trm usz (unat n_rooms)
                  (tokens min_tokens CHR '','') (tokens max_tokens CHR '','') 0
                  \<lparr>sa_isnull = replicate (unat n_rooms) False,
                   sa_min_values = replicate (unat n_rooms) 0,
                   sa_max_values = replicate (unat n_rooms) 0\<rparr> of
             (tok1_null, tok2_null, index, arrays) \<Rightarrow>
               if tok1_null \<and> tok2_null \<and> index = unat n_rooms then Some (usz, arrays)
               else None))"

text \<open>The last value of a key in the custom metadata, as the loop of
  \<^verbatim>\<open>__buildArrowFieldStatsBinary\<close> leaves it.\<close>

definition metadata_value :: "(string \<times> string) list \<Rightarrow> string \<Rightarrow> string option" where
  "metadata_value md key = map_of (rev md) key"

text \<open>\<^verbatim>\<open>__buildArrowFieldStatsBinary\<close>: whether the field or one of its children carries
  usable statistics, and the table of the field.\<close>

fun buildArrowFieldStatsBinary ::
  "(string \<Rightarrow> string) \<Rightarrow> 32 word \<Rightarrow> ArrowField \<Rightarrow> bool \<times> arrowFieldStatsBinary" where
  "buildArrowFieldStatsBinary trm numRecordBatches (ArrowField t md cs) =
     (let parsed =
            (case (metadata_value md ''min_values'', metadata_value md ''max_values'') of
               (Some min_tokens, Some max_tokens) \<Rightarrow>
                 parseArrowFieldStatsBinary trm numRecordBatches t min_tokens max_tokens
             | _ \<Rightarrow> None);
          subs = map (buildArrowFieldStatsBinary trm numRecordBatches) cs
      in (parsed \<noteq> None \<or> list_ex fst subs,
          arrowFieldStatsBinary numRecordBatches
            (case parsed of None \<Rightarrow> - 1 | Some (usz, arrays) \<Rightarrow> word_of_nat usz)
            (map_option snd parsed)
            (word_of_nat (length cs))
            (map snd subs)))"

record arrowStatsBinary =
  sb_nitems :: int32
  sb_nfields :: int32
  sb_fields :: "arrowFieldStatsBinary list"

text \<open>\<^verbatim>\<open>__applyArrowFieldStatsBinary\<close>. The children and the sub-tables are walked side by
  side (the source asserts that there are as many of one as of the other).\<close>

fun applyArrowFieldStatsBinary ::
  "RecordBatchFieldState \<Rightarrow> arrowFieldStatsBinary \<Rightarrow> nat \<Rightarrow> RecordBatchFieldState"
and applyArrowFieldStatsBinaryChildren ::
  "RecordBatchFieldState list \<Rightarrow> arrowFieldStatsBinary list \<Rightarrow> nat \<Rightarrow> RecordBatchFieldState list"
where
  "applyArrowFieldStatsBinary (RecordBatchFieldState c n chs) bstats rb_index =
     RecordBatchFieldState
       (case stats bstats of
          Some arrays \<Rightarrow>
            if 0 <s stats_unit bstats then
              c\<lparr>stat_min := memcpy_low (unat (stats_unit bstats)) (stat_min c) (sa_min_values arrays ! rb_index),
                stat_max := memcpy_low (unat (stats_unit bstats)) (stat_max c) (sa_max_values arrays ! rb_index),
                stat_isnull := False\<rparr>
            else c\<lparr>stat_min := 0, stat_max := 0, stat_isnull := True\<rparr>
        | None \<Rightarrow> c\<lparr>stat_min := 0, stat_max := 0, stat_isnull := True\<rparr>)
       n (applyArrowFieldStatsBinaryChildren chs (subfields bstats) rb_index)"
| "applyArrowFieldStatsBinaryChildren (ch # chs) (b # bs) rb_index =
     applyArrowFieldStatsBinary ch b rb_index # applyArrowFieldStatsBinaryChildren chs bs rb_index"
| "applyArrowFieldStatsBinaryChildren chs bs rb_index = chs"

record RecordBatchState =
  rb_index :: int32
  rb_offset :: off_t
  rb_length :: size_t
  rb_nitems :: int64
  rb_nfields :: int32
  rb_fields :: "RecordBatchFieldState list"

text \<open>\<^verbatim>\<open>buildArrowStatsBinary\<close> over the fields of the schema; nothing when no field carries
  usable statistics.\<close>

definition buildArrowStatsBinary ::
  "(string \<Rightarrow> string) \<Rightarrow> ArrowField list \<Rightarrow> 32 word \<Rightarrow> arrowStatsBinary option" where
  "buildArrowStatsBinary trm schema_fields numRecordBatches =
     (let built = map (buildArrowFieldStatsBinary trm numRecordBatches) schema_fields
      in if list_ex fst built
         then Some \<lparr>sb_nitems = ucast numRecordBatches,
                    sb_nfields = word_of_nat (length schema_fields),
                    sb_fields = map snd built\<rparr>
         else None)"

text \<open>\<^verbatim>\<open>applyArrowStatsBinary\<close>: the loop \<^verbatim>\<open>for (j=0; j < rb_state->nfields; j++)\<close> touches the
  first \<^verbatim>\<open>nfields\<close> fields of the record batch and leaves the others as they are (the
  source asserts that \<^verbatim>\<open>nfields\<close> is the number of fields of the table).\<close>

definition applyArrowStatsBinary :: "RecordBatchState \<Rightarrow> arrowStatsBinary \<Rightarrow> RecordBatchState" where
  "applyArrowStatsBinary rb_state arrow_bstats =
     (let n = nat (sint (rb_nfields rb_state))
      in rb_state\<lparr>rb_fields :=
           applyArrowFieldStatsBinaryChildren (take n (rb_fields rb_state)) (sb_fields arrow_bstats)
             (unat (rb_index rb_state))
           @ drop n (rb_fields rb_state)\<rparr>)"

subsection \<open>Metadata cache: data\<close>

text \<open>The members of \<^verbatim>\<open>struct stat\<close> and \<^verbatim>\<open>struct timeval\<close> the source reads.\<close>

record stat =
  st_dev :: "64 word"
  st_ino :: "64 word"
  st_mtim_sec :: int64
  st_mtim_nsec :: int64

record timeval =
  tv_sec :: int64
  tv_usec :: int64

definition ARROW_METADATA_BLOCKSZ :: nat where "ARROW_METADATA_BLOCKSZ = 128 * 1024"
definition ARROW_METADATA_HASH_NSLOTS :: nat where "ARROW_METADATA_HASH_NSLOTS = 2000"
definition ARROW_METADATA_CACHE_FREE_MAGIC :: "32 word" where "ARROW_METADATA_CACHE_FREE_MAGIC = 0xdeadbeaf"
definition ARROW_METADATA_CACHE_ACTIVE_MAGIC :: "32 word" where "ARROW_METADATA_CACHE_ACTIVE_MAGIC = 0xcafebabe"

text \<open>A slab item on a free list: the block that owns it and its address. Addresses are
  offsets into the cache body; a block is named by the address of its header.\<close>

record slot =
  slot_owner :: nat
  slot_addr :: nat

record block_header =
  blk_unitsz :: nat
  blk_n_actives :: int32

text \<open>The cached form of a field state. The intrusive list of the children is the list of
  the children; an entry is on one list only, so an entry holds its children.\<close>

datatype arrowMetadataFieldCache = arrowMetadataFieldCache
  (fc_owner: nat)
  (fc_addr: nat)
  (fc_common: field_common)
  (fc_num_children: int32)
  (fc_children: "arrowMetadataFieldCache list")
  (fc_magic: "32 word")

text \<open>The cached form of a record batch. The entry holds its fields and, through
  \<^verbatim>\<open>next\<close>, the entries of the following record batches of the file.\<close>

datatype arrowMetadataCache = arrowMetadataCache
  (mc_owner: nat)
  (mc_addr: nat)
  (lru_tv: timeval)
  (mc_next: "arrowMetadataCache option")
  (stat_buf: stat)
  (mc_rb_index: int32)
  (mc_rb_offset: off_t)
  (mc_rb_length: size_t)
  (mc_rb_nitems: int64)
  (mc_nfields: int32)
  (mc_fields: "arrowMetadataFieldCache list")
  (mc_magic: "32 word")

text \<open>\<^verbatim>\<open>arrowMetadataCacheHead\<close>. The hash buckets and the LRU list chain the leader
  entries by their addresses (head of the list first); \<open>mcaches\<close> gives the entry at the
  address of a chained leader, \<open>blocks\<close> the header of a block.\<close>

record arrowMetadataCacheHead =
  lru_list :: "nat list"
  free_blocks :: "nat list"
  free_mcaches :: "slot list"
  free_fcaches :: "slot list"
  hash_slots :: "nat \<Rightarrow> nat list"
  blocks :: "nat \<Rightarrow> block_header"
  mcaches :: "nat \<Rightarrow> arrowMetadataCache option"

text \<open>What the platform fixes: \<^verbatim>\<open>hash_bytes\<close> on the key of device and inode, and the sizes
  of the two kinds of entry.\<close>

record platform =
  hash_bytes :: "64 word \<Rightarrow> 64 word \<Rightarrow> 32 word"
  sizeof_arrowMetadataCache :: nat
  sizeof_arrowMetadataFieldCache :: nat

text \<open>Behaviour the C standard leaves undefined, as the source reaches it.\<close>

datatype fault =
    NullPointerDereference   \<comment> \<open>a store through a null pointer\<close>
  | IteratorInvalidated      \<comment> \<open>\<^verbatim>\<open>dlist_foreach\<close> goes on from a node taken off the list\<close>
  | DanglingPointer          \<comment> \<open>a chained address that holds no entry\<close>

datatype failure = Raised error | Undefined fault

subsection \<open>Metadata cache: release and reclaim\<close>

text \<open>The addresses \<^verbatim>\<open>pos\<close> of the loop
  \<^verbatim>\<open>for (pos = data; pos + unitsz <= end; pos += unitsz)\<close> over a block; the data of a
  block starts 24 bytes after its header.\<close>

definition block_data_offset :: nat where "block_data_offset = 24"

definition block_slots :: "nat \<Rightarrow> nat \<Rightarrow> slot list" where
  "block_slots blk usz =
     map (\<lambda>k. \<lparr>slot_owner = blk, slot_addr = blk + block_data_offset + k * usz\<rparr>)
         [0..<(ARROW_METADATA_BLOCKSZ - block_data_offset) div usz]"

text \<open>``also back the owner block if all slabs become free'': the count of the owner goes
  down by one; at zero the items of the block leave the free list and the block joins
  the free blocks.\<close>

definition dec_n_actives :: "nat \<Rightarrow> arrowMetadataCacheHead \<Rightarrow> arrowMetadataCacheHead" where
  "dec_n_actives blk st =
     st\<lparr>blocks := (blocks st)(blk := (blocks st blk)\<lparr>blk_n_actives := blk_n_actives (blocks st blk) - 1\<rparr>)\<rparr>"

definition block_is_idle :: "nat \<Rightarrow> arrowMetadataCacheHead \<Rightarrow> bool" where
  "block_is_idle blk st = (blk_n_actives (blocks st blk) = 0)"

definition block_addrs :: "nat \<Rightarrow> arrowMetadataCacheHead \<Rightarrow> nat list" where
  "block_addrs blk st = map slot_addr (block_slots blk (blk_unitsz (blocks st blk)))"

fun releaseMetadataFieldCache ::
  "arrowMetadataFieldCache \<Rightarrow> arrowMetadataCacheHead \<Rightarrow> arrowMetadataCacheHead"
and releaseMetadataFieldCacheList ::
  "arrowMetadataFieldCache list \<Rightarrow> arrowMetadataCacheHead \<Rightarrow> arrowMetadataCacheHead"
where
  "releaseMetadataFieldCache (arrowMetadataFieldCache owner addr c n chs magic) st =
     (let st1 = releaseMetadataFieldCacheList chs st;
          st2 = st1\<lparr>free_fcaches := free_fcaches st1 @ [\<lparr>slot_owner = owner, slot_addr = addr\<rparr>]\<rparr>;
          st3 = dec_n_actives owner st2
      in if block_is_idle owner st3
         then st3\<lparr>free_fcaches := filter (\<lambda>s. slot_addr s \<notin> set (block_addrs owner st3)) (free_fcaches st3),
                  free_blocks := free_blocks st3 @ [owner]\<rparr>
         else st3)"
| "releaseMetadataFieldCacheList [] st = st"
| "releaseMetadataFieldCacheList (fcache # rest) st =
     releaseMetadataFieldCacheList rest (releaseMetadataFieldCache fcache st)"

text \<open>\<^verbatim>\<open>__releaseMetadataCache\<close>: the entry and, through \<^verbatim>\<open>next\<close>, all followers. The caller
  has taken the leader off its hash bucket and off the LRU list.\<close>

definition release_entry ::
  "nat \<Rightarrow> nat \<Rightarrow> arrowMetadataFieldCache list \<Rightarrow> arrowMetadataCacheHead \<Rightarrow> arrowMetadataCacheHead" where
  "release_entry owner addr flds st =
     (let st1 = releaseMetadataFieldCacheList flds st;
          st2 = st1\<lparr>free_mcaches := free_mcaches st1 @ [\<lparr>slot_owner = owner, slot_addr = addr\<rparr>],
                    mcaches := (mcaches st1)(addr := None)\<rparr>;
          st3 = dec_n_actives owner st2
      in if block_is_idle owner st3
         then st3\<lparr>free_mcaches := filter (\<lambda>s. slot_addr s \<notin> set (block_addrs owner st3)) (free_mcaches st3),
                  free_blocks := free_blocks st3 @ [owner]\<rparr>
         else st3)"

fun releaseMetadataCache ::
  "arrowMetadataCache \<Rightarrow> arrowMetadataCacheHead \<Rightarrow> arrowMetadataCacheHead" where
  "releaseMetadataCache (arrowMetadataCache owner addr tv nxt sb idx off len nitms nflds flds magic) st =
     (case nxt of
        None \<Rightarrow> release_entry owner addr flds st
      | Some follower \<Rightarrow> releaseMetadataCache follower (release_entry owner addr flds st))"

text \<open>\<^verbatim>\<open>dlist_delete(&mcache->chain)\<close>: the leader leaves the bucket it is chained to.\<close>

definition unlink_hash :: "nat \<Rightarrow> arrowMetadataCacheHead \<Rightarrow> arrowMetadataCacheHead" where
  "unlink_hash addr st = st\<lparr>hash_slots := (\<lambda>i. removeAll addr (hash_slots st i))\<rparr>"

definition unlink_lru :: "nat \<Rightarrow> arrowMetadataCacheHead \<Rightarrow> arrowMetadataCacheHead" where
  "unlink_lru addr st = st\<lparr>lru_list := removeAll addr (lru_list st)\<rparr>"

text \<open>\<^verbatim>\<open>elapsed > 30000000UL\<close>: the difference is computed in \<^verbatim>\<open>int64_t\<close> and compared as
  unsigned.\<close>

definition elapsed_usec :: "timeval \<Rightarrow> timeval \<Rightarrow> 64 word" where
  "elapsed_usec curr_tv tv = (tv_sec curr_tv - tv_sec tv) * 1000000 + (tv_usec curr_tv - tv_usec tv)"

text \<open>\<^verbatim>\<open>__reclaimMetadataCache\<close>: the entry at the tail of the LRU list goes when it was last
  used more than 30 seconds ago.\<close>

definition reclaimMetadataCache ::
  "timeval \<Rightarrow> arrowMetadataCacheHead \<Rightarrow> failure + (bool \<times> arrowMetadataCacheHead)" where
  "reclaimMetadataCache curr_tv st =
     (if lru_list st = [] then Inr (False, st)
      else
        (case mcaches st (last (lru_list st)) of
           None \<Rightarrow> Inl (Undefined DanglingPointer)
         | Some mcache \<Rightarrow>
             if 30000000 < elapsed_usec curr_tv (lru_tv mcache)
             then Inr (True, releaseMetadataCache mcache
                               (unlink_hash (last (lru_list st)) (unlink_lru (last (lru_list st)) st)))
             else Inr (False, st)))"

subsection \<open>Metadata cache: allocation\<close>

lemma dec_n_actives_lru [simp]: "lru_list (dec_n_actives blk st) = lru_list st"
  by (simp add: dec_n_actives_def)

lemma release_fcache_lru:
  "lru_list (releaseMetadataFieldCache fcache st) = lru_list st"
  "lru_list (releaseMetadataFieldCacheList fcaches st) = lru_list st"
  by (induction fcache st and fcaches st
        rule: releaseMetadataFieldCache_releaseMetadataFieldCacheList.induct)
     (simp_all add: Let_def)

lemma release_entry_lru:
  "lru_list (release_entry owner addr flds st) = lru_list st"
  by (simp add: release_entry_def Let_def release_fcache_lru)

lemma release_mcache_lru:
  "lru_list (releaseMetadataCache mcache st) = lru_list st"
  by (induction mcache st rule: releaseMetadataCache.induct)
     (simp add: release_entry_lru split: option.splits)

lemma reclaim_shrinks_lru:
  "reclaimMetadataCache curr_tv st = Inr (True, st') \<Longrightarrow> length (lru_list st') < length (lru_list st)"
  by (auto simp add: reclaimMetadataCache_def release_mcache_lru unlink_hash_def unlink_lru_def
                     length_removeAll_less
           split: if_splits option.splits)

text \<open>The loop \<^verbatim>\<open>while (dlist_is_empty(&free_blocks)) { if (!__reclaimMetadataCache()) return NULL; }\<close>:
  whether a free block is at hand afterwards.\<close>

function reclaim_until_free_block ::
  "timeval \<Rightarrow> arrowMetadataCacheHead \<Rightarrow> failure + (bool \<times> arrowMetadataCacheHead)" where
  "reclaim_until_free_block curr_tv st =
     (if free_blocks st \<noteq> [] then Inr (True, st)
      else
        (case reclaimMetadataCache curr_tv st of
           Inl f \<Rightarrow> Inl f
         | Inr (reclaimed, st') \<Rightarrow>
             if reclaimed then reclaim_until_free_block curr_tv st' else Inr (False, st')))"
  by pat_completeness auto
termination
  by (relation "measure (\<lambda>(curr_tv, st). length (lru_list st))")
     (auto simp add: reclaim_shrinks_lru)

declare reclaim_until_free_block.simps [simp del]

lemma reclaim_until_free_block_lru:
  "reclaim_until_free_block curr_tv st = Inr (b, st') \<Longrightarrow>
     st' = st \<or> length (lru_list st') < length (lru_list st)"
proof (induction curr_tv st rule: reclaim_until_free_block.induct)
  case (1 curr_tv st)
  show ?case
  proof (cases "free_blocks st \<noteq> []")
    case True
    then show ?thesis using 1(2) by (simp add: reclaim_until_free_block.simps [of curr_tv st])
  next
    case False
    show ?thesis
    proof (cases "reclaimMetadataCache curr_tv st")
      case (Inl f)
      then show ?thesis using 1(2) False by (simp add: reclaim_until_free_block.simps [of curr_tv st])
    next
      case (Inr p)
      obtain reclaimed st1 where p: "p = (reclaimed, st1)" by (cases p)
      show ?thesis
      proof (cases reclaimed)
        case True
        have r: "reclaim_until_free_block curr_tv st1 = Inr (b, st')"
          using 1(2) False Inr p True by (simp add: reclaim_until_free_block.simps [of curr_tv st])
        have "st' = st1 \<or> length (lru_list st') < length (lru_list st1)"
          using 1(1) [OF False Inr p [symmetric] True r] .
        moreover have "length (lru_list st1) < length (lru_list st)"
          using reclaim_shrinks_lru [of curr_tv st st1] Inr p True by simp
        ultimately show ?thesis by auto
      next
        case f: False
        then have "st' = st1 \<and> st1 = st"
          using 1(2) False Inr p
          by (auto simp add: reclaim_until_free_block.simps [of curr_tv st] reclaimMetadataCache_def
                   split: if_splits option.splits)
        then show ?thesis by simp
      qed
    qed
  qed
qed

text \<open>A block taken from the free blocks is given its unit size and carved into items,
  which all go to the tail of the free list.\<close>

definition unit_size :: "nat \<Rightarrow> nat" where
  "unit_size sz = unat (MAXALIGN (word_of_nat sz))"

definition carve_fcache_block :: "platform \<Rightarrow> arrowMetadataCacheHead \<Rightarrow> arrowMetadataCacheHead" where
  "carve_fcache_block P st =
     (let blk = hd (free_blocks st);
          usz = unit_size (sizeof_arrowMetadataFieldCache P)
      in st\<lparr>free_blocks := tl (free_blocks st),
             blocks := (blocks st)(blk := \<lparr>blk_unitsz = usz, blk_n_actives = 0\<rparr>),
             free_fcaches := free_fcaches st @ block_slots blk usz\<rparr>)"

definition carve_mcache_block :: "platform \<Rightarrow> arrowMetadataCacheHead \<Rightarrow> arrowMetadataCacheHead" where
  "carve_mcache_block P st =
     (let blk = hd (free_blocks st);
          usz = unit_size (sizeof_arrowMetadataCache P)
      in st\<lparr>free_blocks := tl (free_blocks st),
             blocks := (blocks st)(blk := \<lparr>blk_unitsz = usz, blk_n_actives = 0\<rparr>),
             free_mcaches := free_mcaches st @ block_slots blk usz\<rparr>)"

lemma carve_fcache_block_measure:
  "free_blocks st \<noteq> [] \<Longrightarrow>
     lru_list (carve_fcache_block P st) = lru_list st
     \<and> length (free_blocks (carve_fcache_block P st)) < length (free_blocks st)"
  by (simp add: carve_fcache_block_def Let_def)

lemma reclaim_until_free_block_True:
  "reclaim_until_free_block curr_tv st = Inr (True, st') \<Longrightarrow> free_blocks st' \<noteq> []"
proof (induction curr_tv st rule: reclaim_until_free_block.induct)
  case (1 curr_tv st)
  show ?case
  proof (cases "free_blocks st \<noteq> []")
    case True
    then show ?thesis using 1(2) by (simp add: reclaim_until_free_block.simps [of curr_tv st])
  next
    case False
    then show ?thesis using 1
      by (auto simp add: reclaim_until_free_block.simps [of curr_tv st]
               split: sum.splits prod.splits if_splits)
  qed
qed

text \<open>The loop \<^verbatim>\<open>while (dlist_is_empty(&free_fcaches)) { ... }\<close> of
  \<^verbatim>\<open>__allocMetadataFieldCache\<close>: whether a free item is at hand afterwards.\<close>

function fill_free_fcaches ::
  "platform \<Rightarrow> timeval \<Rightarrow> arrowMetadataCacheHead \<Rightarrow> failure + (bool \<times> arrowMetadataCacheHead)" where
  "fill_free_fcaches P curr_tv st =
     (if free_fcaches st \<noteq> [] then Inr (True, st)
      else
        (case reclaim_until_free_block curr_tv st of
           Inl f \<Rightarrow> Inl f
         | Inr (have_block, st') \<Rightarrow>
             if have_block then fill_free_fcaches P curr_tv (carve_fcache_block P st')
             else Inr (False, st')))"
  by pat_completeness auto
termination
proof (relation "measures [\<lambda>(P, curr_tv, st). length (lru_list st), \<lambda>(P, curr_tv, st). length (free_blocks st)]",
       goal_cases)
  case 1
  then show ?case by simp
next
  case (2 P curr_tv st x2 have_block st')
  then have r: "reclaim_until_free_block curr_tv st = Inr (True, st')" by simp
  from reclaim_until_free_block_True [OF r] have ne: "free_blocks st' \<noteq> []" .
  from reclaim_until_free_block_lru [OF r] carve_fcache_block_measure [OF ne, of P]
  show ?case by auto
qed

declare fill_free_fcaches.simps [simp del]

text \<open>\<^verbatim>\<open>__allocMetadataFieldCache\<close>: the item (null when nothing can be reclaimed) and the
  cache afterwards.\<close>

definition allocMetadataFieldCache ::
  "platform \<Rightarrow> timeval \<Rightarrow> arrowMetadataCacheHead \<Rightarrow> failure + (slot option \<times> arrowMetadataCacheHead)" where
  "allocMetadataFieldCache P curr_tv st =
     (case fill_free_fcaches P curr_tv st of
        Inl f \<Rightarrow> Inl f
      | Inr (have_item, st1) \<Rightarrow>
          if \<not> have_item then Inr (None, st1)
          else
            (let item = hd (free_fcaches st1);
                 blk = slot_owner item
             in Inr (Some item,
                  st1\<lparr>free_fcaches := tl (free_fcaches st1),
                       blocks := (blocks st1)(blk := (blocks st1 blk)
                                   \<lparr>blk_n_actives := blk_n_actives (blocks st1 blk) + 1\<rparr>)\<rparr>)))"

text \<open>
  \<^verbatim>\<open>__allocMetadataCache\<close>. The free list is refilled once (\<^verbatim>\<open>if\<close>, not \<^verbatim>\<open>while\<close>); the head
  item is popped and the count of its block goes up. Then the source clears
  \<^verbatim>\<open>memset(&mcache, 0, ...)\<close>: the address of the local pointer, not the entry (the sibling
  \<^verbatim>\<open>__allocMetadataFieldCache\<close> clears \<^verbatim>\<open>&fcache->chain\<close>). The pointer is null afterwards
  and the next statement, \<^verbatim>\<open>mcache->magic = ...\<close>, stores through it. Popping an empty list
  is a store through a null pointer as well.
\<close>

definition allocMetadataCache ::
  "platform \<Rightarrow> timeval \<Rightarrow> arrowMetadataCacheHead \<Rightarrow> failure + (slot option \<times> arrowMetadataCacheHead)" where
  "allocMetadataCache P curr_tv st =
     (case (if free_mcaches st \<noteq> [] then Inr (True, st)
            else (case reclaim_until_free_block curr_tv st of
                    Inl f \<Rightarrow> Inl f
                  | Inr (have_block, st') \<Rightarrow>
                      if have_block then Inr (True, carve_mcache_block P st') else Inr (False, st'))) of
        Inl f \<Rightarrow> Inl f
      | Inr (go_on, st1) \<Rightarrow>
          if \<not> go_on then Inr (None, st1)
          else Inl (Undefined NullPointerDereference))"

subsection \<open>Metadata cache: lookup\<close>

definition arrowMetadataHashIndex :: "platform \<Rightarrow> stat \<Rightarrow> nat" where
  "arrowMetadataHashIndex P sb = unat (hash_bytes P (st_dev sb) (st_ino sb)) mod ARROW_METADATA_HASH_NSLOTS"

text \<open>``Is the metadata cache still valid?'': the modification time of the file is not
  after the one the entry holds.\<close>

definition mtime_still_valid :: "stat \<Rightarrow> stat \<Rightarrow> bool" where
  "mtime_still_valid sb cached =
     (st_mtim_sec sb <s st_mtim_sec cached
      \<or> (st_mtim_sec sb = st_mtim_sec cached \<and> st_mtim_nsec sb \<le>s st_mtim_nsec cached))"

text \<open>\<^verbatim>\<open>dlist_move_head(&lru_list, &mcache->lru_chain)\<close> after \<^verbatim>\<open>gettimeofday(&mcache->lru_tv)\<close>.\<close>

definition set_lru_tv :: "timeval \<Rightarrow> arrowMetadataCache \<Rightarrow> arrowMetadataCache" where
  "set_lru_tv curr_tv mcache =
     arrowMetadataCache (mc_owner mcache) (mc_addr mcache) curr_tv (mc_next mcache) (stat_buf mcache)
       (mc_rb_index mcache) (mc_rb_offset mcache) (mc_rb_length mcache) (mc_rb_nitems mcache)
       (mc_nfields mcache) (mc_fields mcache) (mc_magic mcache)"

definition touch_lru :: "timeval \<Rightarrow> nat \<Rightarrow> arrowMetadataCache \<Rightarrow> arrowMetadataCacheHead \<Rightarrow> arrowMetadataCacheHead" where
  "touch_lru curr_tv addr mcache st =
     st\<lparr>mcaches := (mcaches st)(addr \<mapsto> set_lru_tv curr_tv mcache),
         lru_list := addr # removeAll addr (lru_list st)\<rparr>"

text \<open>
  The walk \<^verbatim>\<open>dlist_foreach(iter, &hash_slots[hindex])\<close> of \<^verbatim>\<open>lookupArrowMetadataCache\<close>
  over the addresses chained to the bucket. \<^verbatim>\<open>dlist_foreach\<close> reads \<^verbatim>\<open>iter.cur->next\<close> after
  the body and does not allow the list to change during the walk. In the branch for a
  stale entry under the exclusive lock the body takes the current node off the bucket and
  \<^verbatim>\<open>__releaseMetadataCache\<close> pushes it to the tail of \<^verbatim>\<open>free_mcaches\<close>, so that its \<^verbatim>\<open>next\<close>
  is the head of the free list: the walk goes on there, on memory that is no entry of
  the bucket, and never meets the end of the bucket. On a hit the function returns the
  pointer to the entry, which by then holds the new \<^verbatim>\<open>lru_tv\<close>.
\<close>

fun lookup_walk ::
  "timeval \<Rightarrow> stat \<Rightarrow> bool \<Rightarrow> nat list \<Rightarrow> arrowMetadataCacheHead
     \<Rightarrow> failure + (arrowMetadataCache option \<times> arrowMetadataCacheHead)" where
  "lookup_walk curr_tv sb has_exclusive [] st = Inr (None, st)"
| "lookup_walk curr_tv sb has_exclusive (addr # rest) st =
     (case mcaches st addr of
        None \<Rightarrow> Inl (Undefined DanglingPointer)
      | Some mcache \<Rightarrow>
          if st_dev sb = st_dev (stat_buf mcache) \<and> st_ino sb = st_ino (stat_buf mcache) then
            (if mtime_still_valid sb (stat_buf mcache)
             then Inr (Some (set_lru_tv curr_tv mcache), touch_lru curr_tv addr mcache st)
             else if has_exclusive
             then Inl (Undefined IteratorInvalidated)
             else lookup_walk curr_tv sb has_exclusive rest st)
          else lookup_walk curr_tv sb has_exclusive rest st)"

definition lookupArrowMetadataCache ::
  "platform \<Rightarrow> timeval \<Rightarrow> stat \<Rightarrow> bool \<Rightarrow> arrowMetadataCacheHead
     \<Rightarrow> failure + (arrowMetadataCache option \<times> arrowMetadataCacheHead)" where
  "lookupArrowMetadataCache P curr_tv sb has_exclusive st =
     lookup_walk curr_tv sb has_exclusive (hash_slots st (arrowMetadataHashIndex P sb)) st"

text \<open>The cache as the stale branch leaves it when the walk steps off the bucket: the entry
  is off the LRU list and off its bucket, and released with its followers.\<close>

definition discard_stale :: "nat \<Rightarrow> arrowMetadataCache \<Rightarrow> arrowMetadataCacheHead \<Rightarrow> arrowMetadataCacheHead" where
  "discard_stale addr mcache st = releaseMetadataCache mcache (unlink_hash addr (unlink_lru addr st))"

subsection \<open>Building a file state from the cache\<close>

text \<open>\<^verbatim>\<open>__buildRecordBatchFieldStateByCache\<close>; the caller's \<^verbatim>\<open>palloc0\<close> leaves no children
  where the entry counts none.\<close>

fun buildRecordBatchFieldStateByCache :: "arrowMetadataFieldCache \<Rightarrow> RecordBatchFieldState" where
  "buildRecordBatchFieldStateByCache (arrowMetadataFieldCache owner addr c n chs magic) =
     RecordBatchFieldState
       \<lparr>atttypid = atttypid c, atttypmod = atttypmod c, attopts = attopts c,
        nitems = nitems c, null_count = null_count c,
        nullmap_offset = nullmap_offset c, nullmap_length = nullmap_length c,
        values_offset = values_offset c, values_length = values_length c,
        extra_offset = extra_offset c, extra_length = extra_length c,
        stat_min = stat_min c, stat_max = stat_max c, stat_isnull = stat_isnull c\<rparr>
       (if 0 <s n then n else 0)
       (if 0 <s n then map buildRecordBatchFieldStateByCache chs else [])"

record ArrowFileState =
  filename :: string
  af_stat_buf :: stat
  rb_list :: "RecordBatchState list"

fun batches_by_cache :: "arrowMetadataCache \<Rightarrow> RecordBatchState list" where
  "batches_by_cache (arrowMetadataCache owner addr tv nxt sb idx off len nitms nflds flds magic) =
     \<lparr>rb_index = idx, rb_offset = off, rb_length = len, rb_nitems = nitms, rb_nfields = nflds,
      rb_fields = map buildRecordBatchFieldStateByCache flds\<rparr>
     # (case nxt of None \<Rightarrow> [] | Some follower \<Rightarrow> batches_by_cache follower)"

definition buildArrowFileStateByCache :: "string \<Rightarrow> arrowMetadataCache \<Rightarrow> ArrowFileState" where
  "buildArrowFileStateByCache fname mcache =
     \<lparr>filename = fname, af_stat_buf = stat_buf mcache, rb_list = batches_by_cache mcache\<rparr>"

subsection \<open>Metadata cache: insert\<close>

text \<open>\<^verbatim>\<open>__buildArrowMetadataFieldCache\<close>: the entry (null when an allocation fails, after the
  part built so far is released) and the cache afterwards.\<close>

fun buildArrowMetadataFieldCache ::
  "platform \<Rightarrow> timeval \<Rightarrow> RecordBatchFieldState \<Rightarrow> arrowMetadataCacheHead
     \<Rightarrow> failure + (arrowMetadataFieldCache option \<times> arrowMetadataCacheHead)"
and buildArrowMetadataFieldCacheChildren ::
  "platform \<Rightarrow> timeval \<Rightarrow> arrowMetadataFieldCache \<Rightarrow> RecordBatchFieldState list \<Rightarrow> arrowMetadataCacheHead
     \<Rightarrow> failure + (arrowMetadataFieldCache option \<times> arrowMetadataCacheHead)"
where
  "buildArrowMetadataFieldCache P curr_tv (RecordBatchFieldState c n chs) st =
     (case allocMetadataFieldCache P curr_tv st of
        Inl f \<Rightarrow> Inl f
      | Inr (None, st1) \<Rightarrow> Inr (None, st1)
      | Inr (Some item, st1) \<Rightarrow>
          buildArrowMetadataFieldCacheChildren P curr_tv
            (arrowMetadataFieldCache (slot_owner item) (slot_addr item)
               \<lparr>atttypid = atttypid c, atttypmod = atttypmod c, attopts = attopts c,
                nitems = nitems c, null_count = null_count c,
                nullmap_offset = nullmap_offset c, nullmap_length = nullmap_length c,
                values_offset = values_offset c, values_length = values_length c,
                extra_offset = extra_offset c, extra_length = extra_length c,
                stat_min = stat_min c, stat_max = stat_max c, stat_isnull = stat_isnull c\<rparr>
               n [] ARROW_METADATA_CACHE_ACTIVE_MAGIC)
            chs st1)"
| "buildArrowMetadataFieldCacheChildren P curr_tv fcache [] st = Inr (Some fcache, st)"
| "buildArrowMetadataFieldCacheChildren P curr_tv fcache (child # rest) st =
     (case buildArrowMetadataFieldCache P curr_tv child st of
        Inl f \<Rightarrow> Inl f
      | Inr (None, st1) \<Rightarrow> Inr (None, releaseMetadataFieldCache fcache st1)
      | Inr (Some sub, st1) \<Rightarrow>
          buildArrowMetadataFieldCacheChildren P curr_tv
            (arrowMetadataFieldCache (fc_owner fcache) (fc_addr fcache) (fc_common fcache)
               (fc_num_children fcache) (fc_children fcache @ [sub]) (fc_magic fcache))
            rest st1)"

text \<open>The loop \<^verbatim>\<open>for (j=0; j < rb_state->nfields; j++)\<close> over the fields of one record
  batch, given the fields it visits: whether every one of them was cached, the entry with
  the fields chained so far, and the cache afterwards.\<close>

fun build_mcache_fields ::
  "platform \<Rightarrow> timeval \<Rightarrow> arrowMetadataCache \<Rightarrow> RecordBatchFieldState list \<Rightarrow> arrowMetadataCacheHead
     \<Rightarrow> failure + (bool \<times> arrowMetadataCache \<times> arrowMetadataCacheHead)" where
  "build_mcache_fields P curr_tv mcache [] st = Inr (True, mcache, st)"
| "build_mcache_fields P curr_tv mcache (fstate # rest) st =
     (case buildArrowMetadataFieldCache P curr_tv fstate st of
        Inl f \<Rightarrow> Inl f
      | Inr (None, st1) \<Rightarrow> Inr (False, mcache, st1)
      | Inr (Some fcache, st1) \<Rightarrow>
          build_mcache_fields P curr_tv
            (arrowMetadataCache (mc_owner mcache) (mc_addr mcache) (lru_tv mcache) (mc_next mcache)
               (stat_buf mcache) (mc_rb_index mcache) (mc_rb_offset mcache) (mc_rb_length mcache)
               (mc_rb_nitems mcache) (mc_nfields mcache) (mc_fields mcache @ [fcache]) (mc_magic mcache))
            rest st1)"

text \<open>The entries built so far, chained through \<^verbatim>\<open>next\<close> in the order they were built
  (\<^verbatim>\<open>mcache_prev->next = mcache\<close>); the first one is \<^verbatim>\<open>mcache_head\<close>.\<close>

fun link_chain :: "arrowMetadataCache list \<Rightarrow> arrowMetadataCache option" where
  "link_chain [] = None"
| "link_chain (mcache # rest) =
     Some (arrowMetadataCache (mc_owner mcache) (mc_addr mcache) (lru_tv mcache) (link_chain rest)
             (stat_buf mcache) (mc_rb_index mcache) (mc_rb_offset mcache) (mc_rb_length mcache)
             (mc_rb_nitems mcache) (mc_nfields mcache) (mc_fields mcache) (mc_magic mcache))"

definition release_chain :: "arrowMetadataCache list \<Rightarrow> arrowMetadataCacheHead \<Rightarrow> arrowMetadataCacheHead" where
  "release_chain chain st =
     (case link_chain chain of None \<Rightarrow> st | Some mcache_head \<Rightarrow> releaseMetadataCache mcache_head st)"

text \<open>The loop \<^verbatim>\<open>foreach (lc, af_state->rb_list)\<close> of \<^verbatim>\<open>__buildArrowMetadataCacheNoLock\<close>: the
  entries of the file in batch order, or nothing after an allocation failed and what was
  built has been released.\<close>

fun insert_loop ::
  "platform \<Rightarrow> timeval \<Rightarrow> stat \<Rightarrow> RecordBatchState list \<Rightarrow> arrowMetadataCache list \<Rightarrow> arrowMetadataCacheHead
     \<Rightarrow> failure + (arrowMetadataCache list option \<times> arrowMetadataCacheHead)" where
  "insert_loop P curr_tv sb [] chain st = Inr (Some chain, st)"
| "insert_loop P curr_tv sb (rb_state # rest) chain st =
     (case allocMetadataCache P curr_tv st of
        Inl f \<Rightarrow> Inl f
      | Inr (None, st1) \<Rightarrow> Inr (None, release_chain chain st1)
      | Inr (Some item, st1) \<Rightarrow>
          (case build_mcache_fields P curr_tv
                  (arrowMetadataCache (slot_owner item) (slot_addr item) \<lparr>tv_sec = 0, tv_usec = 0\<rparr> None sb
                     (rb_index rb_state) (rb_offset rb_state) (rb_length rb_state) (rb_nitems rb_state)
                     (rb_nfields rb_state) [] ARROW_METADATA_CACHE_ACTIVE_MAGIC)
                  (take (nat (sint (rb_nfields rb_state))) (rb_fields rb_state)) st1 of
             Inl f \<Rightarrow> Inl f
           | Inr (complete, mcache, st2) \<Rightarrow>
               if complete then insert_loop P curr_tv sb rest (chain @ [mcache]) st2
               else Inr (None, release_chain (chain @ [mcache]) st2)))"

text \<open>\<^verbatim>\<open>__buildArrowMetadataCacheNoLock\<close>: after the loop the leader is chained to the tail of
  its hash bucket and to the head of the LRU list. With no record batch at all the source
  chains a null leader.\<close>

definition buildArrowMetadataCacheNoLock ::
  "platform \<Rightarrow> timeval \<Rightarrow> ArrowFileState \<Rightarrow> arrowMetadataCacheHead \<Rightarrow> failure + arrowMetadataCacheHead" where
  "buildArrowMetadataCacheNoLock P curr_tv af_state st =
     (case insert_loop P curr_tv (af_stat_buf af_state) (rb_list af_state) [] st of
        Inl f \<Rightarrow> Inl f
      | Inr (None, st1) \<Rightarrow> Inr st1
      | Inr (Some chain, st1) \<Rightarrow>
          (case link_chain chain of
             None \<Rightarrow> Inl (Undefined NullPointerDereference)
           | Some mcache_head \<Rightarrow>
               (let hindex = arrowMetadataHashIndex P (af_stat_buf af_state);
                    addr = mc_addr mcache_head
                in Inr (touch_lru curr_tv addr mcache_head
                          (st1\<lparr>hash_slots := (hash_slots st1)(hindex := hash_slots st1 hindex @ [addr])\<rparr>)))))"

subsection \<open>Building a file state from the raw file\<close>

record ArrowBlock =
  block_offset :: int64
  block_metaDataLength :: int32
  block_bodyLength :: int64

record ArrowRecordBatch =
  rbatch_compression :: bool
  rbatch_length :: int64
  rbatch_nodes :: "ArrowFieldNode list"
  rbatch_buffers :: "ArrowBuffer list"

text \<open>What \<^verbatim>\<open>readArrowFileDesc\<close> hands over: the result of \<^verbatim>\<open>stat\<close>, the schema and the
  block descriptors of the footer, whether there are dictionary batches, and the array of
  record-batch bodies, parallel to the block descriptors (\<open>None\<close> is the null pointer).\<close>

record ArrowFileInfo =
  info_stat_buf :: stat
  schema_fields :: "ArrowField list"
  footer_recordBatches :: "ArrowBlock list"
  has_dictionaries :: bool
  recordBatches :: "ArrowRecordBatch list option"

text \<open>\<^verbatim>\<open>__buildRecordBatchStateOne\<close>. The state comes from \<^verbatim>\<open>palloc0\<close> and the function
  assigns \<^verbatim>\<open>rb_index\<close>, \<^verbatim>\<open>rb_offset\<close>, \<^verbatim>\<open>rb_length\<close>, \<^verbatim>\<open>rb_nitems\<close> and the field states;
  \<^verbatim>\<open>nfields\<close> is never assigned and stays zero.\<close>

definition buildRecordBatchStateOne ::
  "pg_catalog \<Rightarrow> ArrowField list \<Rightarrow> nat \<Rightarrow> ArrowBlock \<Rightarrow> ArrowRecordBatch \<Rightarrow> error + RecordBatchState" where
  "buildRecordBatchStateOne cat schema idx block rbatch =
     (if rbatch_compression rbatch then Inl UnsupportedFeature
      else
        (case buildRecordBatchFieldStateChildren cat
                \<lparr>buffers = rbatch_buffers rbatch, fnodes = rbatch_nodes rbatch\<rparr> schema 0 of
           Inl e \<Rightarrow> Inl e
         | Inr (fstates, con) \<Rightarrow>
             if buffers con \<noteq> [] \<or> fnodes con \<noteq> [] then Inl RecordBatchMayBeCorrupted
             else Inr \<lparr>rb_index = word_of_nat idx,
                       rb_offset = block_offset block + scast (block_metaDataLength block),
                       rb_length = block_bodyLength block,
                       rb_nitems = rbatch_length rbatch,
                       rb_nfields = 0,
                       rb_fields = fstates\<rparr>))"

text \<open>The loop of \<^verbatim>\<open>__buildArrowFileStateByFile\<close> over the record batches.\<close>

fun build_batches ::
  "pg_catalog \<Rightarrow> ArrowField list \<Rightarrow> arrowStatsBinary option \<Rightarrow> nat \<Rightarrow> (ArrowBlock \<times> ArrowRecordBatch) list
     \<Rightarrow> error + RecordBatchState list" where
  "build_batches cat schema arrow_bstats i [] = Inr []"
| "build_batches cat schema arrow_bstats i ((block, rbatch) # rest) =
     (case buildRecordBatchStateOne cat schema i block rbatch of
        Inl e \<Rightarrow> Inl e
      | Inr rb_state \<Rightarrow>
          (case build_batches cat schema arrow_bstats (i + 1) rest of
             Inl e \<Rightarrow> Inl e
           | Inr rb_states \<Rightarrow>
               Inr ((case arrow_bstats of
                       None \<Rightarrow> rb_state
                     | Some bstats \<Rightarrow> applyArrowStatsBinary rb_state bstats) # rb_states)))"

datatype open_result = Opened | NoEntry | OpenError

text \<open>The file system as the builder reads it: \<^verbatim>\<open>stat\<close>, \<^verbatim>\<open>PathNameOpenFile\<close> and
  \<^verbatim>\<open>readArrowFileDesc\<close> (which raises on a corrupted file).\<close>

record file_system =
  fs_stat :: "string \<Rightarrow> stat option"
  fs_open :: "string \<Rightarrow> open_result"
  fs_read :: "string \<Rightarrow> error + ArrowFileInfo"

text \<open>\<^verbatim>\<open>__buildArrowFileStateByFile\<close>: no file state (null) when the file is not there, and
  when it ``contains no RecordBatch''.\<close>

definition buildArrowFileStateByFile ::
  "pg_catalog \<Rightarrow> file_system \<Rightarrow> (string \<Rightarrow> string) \<Rightarrow> string \<Rightarrow> error + ArrowFileState option" where
  "buildArrowFileStateByFile cat fs trm fname =
     (case fs_open fs fname of
        OpenError \<Rightarrow> Inl OpenFailed
      | NoEntry \<Rightarrow> Inr None
      | Opened \<Rightarrow>
          (case fs_read fs fname of
             Inl e \<Rightarrow> Inl e
           | Inr af_info \<Rightarrow>
               if has_dictionaries af_info then Inl UnsupportedFeature
               else
                 (case recordBatches af_info of
                    None \<Rightarrow> Inr None
                  | Some rbatches \<Rightarrow>
                      (case build_batches cat (schema_fields af_info)
                              (buildArrowStatsBinary trm (schema_fields af_info)
                                 (word_of_nat (length (footer_recordBatches af_info))))
                              0 (zip (footer_recordBatches af_info) rbatches) of
                         Inl e \<Rightarrow> Inl e
                       | Inr rb_states \<Rightarrow>
                           Inr (Some \<lparr>filename = fname, af_stat_buf = info_stat_buf af_info,
                                      rb_list = rb_states\<rparr>)))))"

text \<open>The compatibility checks of \<^verbatim>\<open>BuildArrowFileState\<close> against the attribute types of
  the foreign table; \<^verbatim>\<open>linitial\<close> of an empty list reads through a null pointer.\<close>

definition check_compatible ::
  "Oid list \<Rightarrow> ArrowFileState \<Rightarrow> failure + ArrowFileState" where
  "check_compatible tupdesc af_state =
     (case rb_list af_state of
        [] \<Rightarrow> Inl (Undefined NullPointerDereference)
      | rb_state # rest \<Rightarrow>
          if word_of_nat (length tupdesc) \<noteq> rb_nfields rb_state then Inl (Raised SchemaMismatch)
          else if tupdesc \<noteq> map (\<lambda>fstate. atttypid (common fstate)) (take (length tupdesc) (rb_fields rb_state))
          then Inl (Raised SchemaMismatch)
          else Inr af_state)"

text \<open>\<^verbatim>\<open>BuildArrowFileState\<close>: the file state (null when there is none) and the cache
  afterwards.\<close>

definition BuildArrowFileState ::
  "platform \<Rightarrow> pg_catalog \<Rightarrow> file_system \<Rightarrow> (string \<Rightarrow> string) \<Rightarrow> timeval \<Rightarrow> Oid list \<Rightarrow> string
     \<Rightarrow> arrowMetadataCacheHead \<Rightarrow> failure + (ArrowFileState option \<times> arrowMetadataCacheHead)" where
  "BuildArrowFileState P cat fs trm curr_tv tupdesc fname st =
     (case fs_stat fs fname of
        None \<Rightarrow> Inl (Raised StatFailed)
      | Some sb \<Rightarrow>
          (case lookupArrowMetadataCache P curr_tv sb False st of
             Inl f \<Rightarrow> Inl f
           | Inr (Some mcache, st1) \<Rightarrow>
               map_sum id (\<lambda>af. (Some af, st1)) (check_compatible tupdesc (buildArrowFileStateByCache fname mcache))
           | Inr (None, st1) \<Rightarrow>
               (case buildArrowFileStateByFile cat fs trm fname of
                  Inl e \<Rightarrow> Inl (Raised e)
                | Inr None \<Rightarrow> Inr (None, st1)
                | Inr (Some af_state) \<Rightarrow>
                    (case lookupArrowMetadataCache P curr_tv (af_stat_buf af_state) True st1 of
                       Inl f \<Rightarrow> Inl f
                     | Inr (Some mcache, st2) \<Rightarrow>
                         map_sum id (\<lambda>af. (Some af, st2)) (check_compatible tupdesc af_state)
                     | Inr (None, st2) \<Rightarrow>
                         (case buildArrowMetadataCacheNoLock P curr_tv af_state st2 of
                            Inl f \<Rightarrow> Inl f
                          | Inr st3 \<Rightarrow>
                              map_sum id (\<lambda>af. (Some af, st3)) (check_compatible tupdesc af_state))))))"

text \<open>\<^verbatim>\<open>ArrowIterateForeignScan\<close> returns the null slot: the end of the scan.\<close>

definition ArrowIterateForeignScan :: "'node \<Rightarrow> 'slot option" where
  "ArrowIterateForeignScan node = None"

subsection \<open>Well-formed trees\<close>

text \<open>The C arrays of children carry their length in a count of type \<^verbatim>\<open>int\<close>: a field
  state holds as many children as \<open>num_children\<close> says, and an Arrow field has fewer than
  \<open>2^31\<close> children.\<close>

fun fstate_wf :: "RecordBatchFieldState \<Rightarrow> bool" where
  "fstate_wf (RecordBatchFieldState c n chs) =
     (n = word_of_nat (length chs) \<and> length chs < 2 ^ 31 \<and> list_all fstate_wf chs)"

fun field_wf :: "ArrowField \<Rightarrow> bool" where
  "field_wf (ArrowField t md cs) = (length cs < 2 ^ 31 \<and> list_all field_wf cs)"

subsection \<open>Concrete inputs\<close>

text \<open>A host catalog with the built-in types \<open>uuid\<close>, \<open>macaddr\<close> and \<open>inet\<close> in
  \<open>pg_catalog\<close>, and one composite type \<open>(int4, text)\<close> every user may use.\<close>

definition example_catalog :: pg_catalog where
  "example_catalog =
     \<lparr>namespace_oid = (\<lambda>n. if n = ''pg_catalog'' then PG_CATALOG_NAMESPACE else InvalidOid),
      typename_oid = (\<lambda>n nsp.
         if nsp \<noteq> PG_CATALOG_NAMESPACE then InvalidOid
         else if n = ''uuid'' then UUIDOID
         else if n = ''macaddr'' then MACADDROID
         else if n = ''inet'' then INETOID
         else if n = ''int4'' then INT4OID
         else if n = ''pair'' then 16500
         else InvalidOid),
      array_type = (\<lambda>oid. if oid = INT4OID then 1007 else InvalidOid),
      composite_relations = [(16400, 3), (16500, 2)],
      type_usage_granted = (\<lambda>oid. True),
      rowtype_tupdesc = (\<lambda>oid. if oid = 16500 then Some [INT4OID, TEXTOID]
                               else if oid = 16400 then Some [INT4OID, INT4OID, INT4OID]
                               else None)\<rparr>"

text \<open>One field node of \<open>n\<close> rows without nulls, and a buffer at an offset with a length.\<close>

definition fnode_of :: "int64 \<Rightarrow> ArrowFieldNode" where
  "fnode_of n = \<lparr>fnode_length = n, fnode_null_count = 0\<rparr>"

definition buffer_at :: "int64 \<Rightarrow> int64 \<Rightarrow> ArrowBuffer" where
  "buffer_at off len = \<lparr>buf_offset = off, buf_length = len\<rparr>"

text \<open>An \<open>Int32\<close> field state of one row before its buffers are assigned.\<close>

definition int32_fstate :: field_common where
  "int32_fstate =
     (init_fstate (fnode_of 1))\<lparr>atttypid := INT4OID,
        attopts := \<lparr>tag = ArrowType__Int, unitsz = 4, variant = opts_integer 32 True\<rparr>\<rparr>"

text \<open>An \<open>Int64\<close> field state of \<open>2^61\<close> rows, as a field node of a file may announce it: the
  product \<open>8 \<times> 2^61\<close> is \<open>2^64\<close>.\<close>

definition int64_huge_fstate :: field_common where
  "int64_huge_fstate =
     (init_fstate (fnode_of (2 ^ 61)))\<lparr>atttypid := INT8OID,
        attopts := \<lparr>tag = ArrowType__Int, unitsz = 8, variant = opts_integer 64 True\<rparr>\<rparr>"

text \<open>What a result of the builder binds: the host type and the unit size.\<close>

definition bound_type ::
  "error + (RecordBatchFieldState \<times> setupRecordBatchContext) \<Rightarrow> error + (Oid \<times> int32)" where
  "bound_type r =
     (case r of Inl e \<Rightarrow> Inl e
      | Inr (fstate, con) \<Rightarrow> Inr (atttypid (common fstate), unitsz (attopts (common fstate))))"

text \<open>The least length of a values buffer in the words of the spec: \<open>unit_size \<times> row_count\<close>,
  \<open>unit_size \<times> (row_count + 1)\<close> for the offsets of a variable-length field, the bitmap
  length for a bitmap-valued field (negative unit size).\<close>

definition spec_least_length :: "int \<Rightarrow> nat \<Rightarrow> bool \<Rightarrow> nat" where
  "spec_least_length unit rows has_extra =
     (if unit < 0 then (rows + 7) div 8
      else if \<not> has_extra then nat unit * rows
      else nat unit * (rows + 1))"

text \<open>A Struct field \<open>(Int32, Utf8)\<close> hinted as the composite type \<open>pair\<close>, and the cursors
  of a batch of one row for it.\<close>

definition pair_field :: ArrowField where
  "pair_field =
     ArrowField ArrowNodeTag__Struct [(''pg_type'', ''pair'')]
       [ArrowField (ArrowNodeTag__Int 32 True) [] [], ArrowField ArrowNodeTag__Utf8 [] []]"

definition pair_context :: setupRecordBatchContext where
  "pair_context =
     \<lparr>buffers = [buffer_at 0 0, buffer_at 0 0, buffer_at 0 8, buffer_at 0 0, buffer_at 8 8, buffer_at 16 8],
      fnodes = [fnode_of 1, fnode_of 1, fnode_of 1]\<rparr>"

definition one_field_context :: "int64 \<Rightarrow> int64 \<Rightarrow> setupRecordBatchContext" where
  "one_field_context rows len =
     \<lparr>buffers = [buffer_at 0 0, buffer_at 0 len], fnodes = [fnode_of rows]\<rparr>"

text \<open>A file system where every path is readable and the directory \<open>/arr\<close> holds five
  names; \<^verbatim>\<open>__trim\<close> leaves the tokens as they are.\<close>

definition readable_env :: environment where
  "readable_env =
     \<lparr>access_R_OK = (\<lambda>path. True),
      read_dir = (\<lambda>path. if path = ''/arr'' then Some [''.'', ''..'', ''a.arrow'', ''b.txt'', ''c.arrow''] else None),
      atoi = (\<lambda>s. 0),
      trim = (\<lambda>s. s)\<rparr>"

text \<open>A platform whose entries take 60000 bytes, so that a block holds two of them; a cache
  with two free blocks and nothing else; a cache that holds one entry, cached for the file
  of device 1 and inode 2 when its modification time was 100.\<close>

definition example_platform :: platform where
  "example_platform =
     \<lparr>hash_bytes = (\<lambda>dev ino. 7), sizeof_arrowMetadataCache = 60000,
      sizeof_arrowMetadataFieldCache = 60000\<rparr>"

definition fresh_cache :: arrowMetadataCacheHead where
  "fresh_cache =
     \<lparr>lru_list = [], free_blocks = [0, 131072], free_mcaches = [], free_fcaches = [],
      hash_slots = (\<lambda>i. []), blocks = (\<lambda>blk. \<lparr>blk_unitsz = 0, blk_n_actives = 0\<rparr>),
      mcaches = (\<lambda>addr. None)\<rparr>"

definition noon :: timeval where
  "noon = \<lparr>tv_sec = 1000, tv_usec = 0\<rparr>"

definition leaf_fstate :: "Oid \<Rightarrow> ArrowTypeOptions \<Rightarrow> ArrowBuffer \<Rightarrow> ArrowBuffer \<Rightarrow> RecordBatchFieldState" where
  "leaf_fstate typid opts vals extra =
     RecordBatchFieldState
       ((init_fstate (fnode_of 1))\<lparr>atttypid := typid, attopts := opts,
          values_offset := buf_offset vals, values_length := buf_length vals,
          extra_offset := buf_offset extra, extra_length := buf_length extra\<rparr>) 0 []"

definition pair_fstate :: RecordBatchFieldState where
  "pair_fstate =
     RecordBatchFieldState
       ((init_fstate (fnode_of 1))\<lparr>atttypid := 16500,
          attopts := \<lparr>tag = ArrowType__Struct, unitsz = 0, variant = opts_none\<rparr>\<rparr>)
       2
       [leaf_fstate INT4OID \<lparr>tag = ArrowType__Int, unitsz = 4, variant = opts_integer 32 True\<rparr>
          (buffer_at 0 8) (buffer_at 0 0),
        leaf_fstate TEXTOID \<lparr>tag = ArrowType__Utf8, unitsz = 4, variant = opts_none\<rparr>
          (buffer_at 8 8) (buffer_at 16 8)]"

definition cached_stat :: stat where
  "cached_stat = \<lparr>st_dev = 1, st_ino = 2, st_mtim_sec = 100, st_mtim_nsec = 0\<rparr>"

definition stale_entry :: arrowMetadataCache where
  "stale_entry =
     arrowMetadataCache 0 24 \<lparr>tv_sec = 990, tv_usec = 0\<rparr> None cached_stat 0 0 0 1 0 []
       ARROW_METADATA_CACHE_ACTIVE_MAGIC"

definition one_entry_cache :: arrowMetadataCacheHead where
  "one_entry_cache =
     \<lparr>lru_list = [24], free_blocks = [131072], free_mcaches = [\<lparr>slot_owner = 0, slot_addr = 60024\<rparr>],
      free_fcaches = [],
      hash_slots = (\<lambda>i. if i = 7 then [24] else []),
      blocks = (\<lambda>blk. if blk = 0 then \<lparr>blk_unitsz = 60000, blk_n_actives = 1\<rparr>
                      else \<lparr>blk_unitsz = 0, blk_n_actives = 0\<rparr>),
      mcaches = (\<lambda>addr. if addr = 24 then Some stale_entry else None)\<rparr>"

definition one_batch_file :: ArrowFileState where
  "one_batch_file =
     \<lparr>filename = ''/a.arrow'', af_stat_buf = cached_stat,
      rb_list = [\<lparr>rb_index = 0, rb_offset = 512, rb_length = 64, rb_nitems = 1, rb_nfields = 1,
                  rb_fields = [leaf_fstate INT4OID \<lparr>tag = ArrowType__Int, unitsz = 4, variant = opts_integer 32 True\<rparr>
                                 (buffer_at 0 8) (buffer_at 0 0)]\<rparr>]\<rparr>"

text \<open>A file that parses and holds no record batch, and a file system that holds this one
  file under every name.\<close>

definition empty_file_info :: ArrowFileInfo where
  "empty_file_info =
     \<lparr>info_stat_buf = cached_stat,
      schema_fields = [ArrowField (ArrowNodeTag__Int 32 True) [] []],
      footer_recordBatches = [], has_dictionaries = False, recordBatches = None\<rparr>"

definition file_system_of :: "ArrowFileInfo \<Rightarrow> file_system" where
  "file_system_of af_info =
     \<lparr>fs_stat = (\<lambda>fname. Some (info_stat_buf af_info)),
      fs_open = (\<lambda>fname. Opened),
      fs_read = (\<lambda>fname. Inr af_info)\<rparr>"





section \<open>Properties\<close>

subsection \<open>Alignment arithmetic\<close>

lemma and_not_mask3: "(y::64 word) AND NOT (mask 3) = push_bit 3 (drop_bit 3 y)"
  by (rule bit_eqI) (auto simp add: bit_simps)

lemma seven_mask: "(7::64 word) = mask 3"
  by (simp add: mask_eq_exp_minus_1)

lemma unat_MAXALIGN_gen: "unat (MAXALIGN x) = 8 * (unat (x + 7) div 8)"
proof -
  have a: "MAXALIGN x = push_bit 3 (drop_bit 3 (x + 7))"
    by (simp add: MAXALIGN_def MAXIMUM_ALIGNOF_def seven_mask and_not_mask3)
  have b: "unat (drop_bit 3 (x + 7)) = unat (x + 7) div 8"
    unfolding unat_drop_bit_eq by (simp add: drop_bit_eq_div)
  have c: "unat (x + 7) div 8 * 8 < 2 ^ 64"
  proof -
    have "unat (x + 7) < 2 ^ 64" using unsigned_less [of "x + 7"] by simp
    moreover have "unat (x + 7) div 8 * 8 \<le> unat (x + 7)" by simp
    ultimately show ?thesis by linarith
  qed
  have "unat (push_bit 3 (drop_bit 3 (x + 7))) = (unat (drop_bit 3 (x + 7)) * 8) mod 2 ^ 64"
    by (simp add: push_bit_eq_mult unat_word_ariths)
  also have "\<dots> = unat (x + 7) div 8 * 8" using b c by simp
  finally show ?thesis using a by simp
qed

lemma unat_MAXALIGN: "unat x + 7 < 2 ^ 64 \<Longrightarrow> unat (MAXALIGN x) = 8 * ((unat x + 7) div 8)"
proof -
  assume h: "unat x + 7 < 2 ^ 64"
  have "unat (x + 7) = unat x + 7"
    using h by (simp add: unat_word_ariths)
  then show ?thesis by (simp add: unat_MAXALIGN_gen)
qed

lemma MAXALIGN_aligned: "(x = MAXALIGN x) = (unat x mod 8 = 0)"
proof
  assume "x = MAXALIGN x"
  then have "unat x = 8 * (unat (x + 7) div 8)" using unat_MAXALIGN_gen [of x] by simp
  then show "unat x mod 8 = 0" by presburger
next
  assume h: "unat x mod 8 = 0"
  have lt: "unat x < 18446744073709551616" using unsigned_less [of x] by simp
  have "unat x + 7 < 18446744073709551616" using h lt by presburger
  then have "unat x + 7 < 2 ^ 64" by simp
  then have "unat (MAXALIGN x) = 8 * ((unat x + 7) div 8)" by (rule unat_MAXALIGN)
  also have "\<dots> = unat x" using h by presburger
  finally show "x = MAXALIGN x" by (simp add: word_unat_eq_iff)
qed

lemma unat_scast_nonneg:
  fixes u :: "32 word"
  assumes "0 \<le> sint u"
  shows "unat (scast u :: 64 word) = nat (sint u)"
proof -
  have lt: "sint u < 2 ^ 31" using sint_lt [of u] by simp
  have "uint (scast u :: 64 word) = sint u mod 2 ^ LENGTH(64)"
    unfolding scast_eq by (rule uint_word_of_int)
  also have "\<dots> = sint u" using assms lt by simp
  finally show ?thesis by (simp add: unat_eq_nat_uint)
qed

lemma unat_BITMAPLEN: "unat n + 7 < 2 ^ 64 \<Longrightarrow> unat (BITMAPLEN n) = (unat n + 7) div 8"
proof -
  assume h: "unat n + 7 < 2 ^ 64"
  have "unat (n + 7) = unat n + 7" using h by (simp add: unat_word_ariths)
  then show ?thesis by (simp add: BITMAPLEN_def unat_div)
qed

subsection \<open>The values buffer of a field (C4)\<close>

lemma unat_least_length:
  assumes n7: "unat (nitems f) + 7 < 2 ^ 64"
      and fit: "spec_least_length (sint (unitsz (attopts f))) (unat (nitems f)) has_extra < 2 ^ 64"
  shows "unat (least_length f has_extra)
           = spec_least_length (sint (unitsz (attopts f))) (unat (nitems f)) has_extra"
proof (cases "unitsz (attopts f) <s 0")
  case True
  then have neg: "sint (unitsz (attopts f)) < 0" by (simp add: word_sless_alt)
  show ?thesis using True neg n7
    by (simp add: least_length_def spec_least_length_def unat_BITMAPLEN)
next
  case False
  then have nn: "0 \<le> sint (unitsz (attopts f))" by (simp add: word_sless_alt)
  have u: "unat (scast (unitsz (attopts f)) :: 64 word) = nat (sint (unitsz (attopts f)))"
    using nn by (rule unat_scast_nonneg)
  have n1: "unat (nitems f + 1) = unat (nitems f) + 1"
    using n7 by (simp add: unat_word_ariths)
  show ?thesis
  proof (cases has_extra)
    case True
    have "unat (scast (unitsz (attopts f)) * (nitems f + 1) :: 64 word)
            = nat (sint (unitsz (attopts f))) * (unat (nitems f) + 1)"
      using fit True nn u n1 by (simp add: unat_word_ariths spec_least_length_def)
    then show ?thesis using True False nn
      by (simp add: least_length_def spec_least_length_def)
  next
    case hf: False
    have "unat (scast (unitsz (attopts f)) * nitems f :: 64 word)
            = nat (sint (unitsz (attopts f))) * unat (nitems f)"
      using fit hf nn u by (simp add: unat_word_ariths spec_least_length_def)
    then show ?thesis using hf False nn
      by (simp add: least_length_def spec_least_length_def)
  qed
qed

lemma assign_nullmap_keeps:
  "assign_nullmap f c = Inr (f1, c1) \<Longrightarrow>
     attopts f1 = attopts f \<and> nitems f1 = nitems f \<and> least_length f1 x = least_length f x"
  by (auto simp add: assign_nullmap_def next_buffer_def least_length_def Let_def
           split: list.splits if_splits)

lemma assign_extra_keeps:
  "assign_extra f c x = Inr (f1, c1) \<Longrightarrow>
     values_offset f1 = values_offset f \<and> values_length f1 = values_length f"
  by (auto simp add: assign_extra_def next_buffer_def Let_def split: list.splits if_splits)

text \<open>
  C4, as amended. Take a field with a values buffer (non-zero unit size) whose nullmap
  buffer has been accepted, a record batch that still holds a buffer for it, and a row count
  and a least length in the range where the 64-bit arithmetic of the source does not wrap
  (\<open>row_count + 7 < 2^64\<close> and \<open>least_length + 7 < 2^64\<close>), the least length being
  \<open>unit_size \<times> row_count\<close>, \<open>unit_size \<times> (row_count + 1)\<close> for variable-length offsets, and
  the bitmap length for a bitmap-valued field. Then \<^verbatim>\<open>__assignRecordBatchFieldStateBuffer\<close>
  fails with \<open>ValuesTooSmall\<close> exactly when the length of the values buffer is below the
  least length \<^emph>\<open>rounded up to the maximum alignment\<close>, and otherwise with
  \<open>ValuesNotAligned\<close> exactly when the offset is not a multiple of the maximum alignment;
  otherwise offset and length are recorded and the walk goes on to the extra buffer.
\<close>

theorem values_buffer_check:
  assumes nm: "assign_nullmap fstate con = Inr (fstate1, con1)"
      and unit: "unitsz (attopts fstate) \<noteq> 0"
      and bufs: "buffers con1 = b # rest"
      and n7: "unat (nitems fstate) + 7 < 2 ^ 64"
      and fit: "spec_least_length (sint (unitsz (attopts fstate))) (unat (nitems fstate)) has_extra + 7 < 2 ^ 64"
  shows "assignRecordBatchFieldStateBuffer fstate con has_extra =
           (if unat (buf_length b)
                 < 8 * ((spec_least_length (sint (unitsz (attopts fstate))) (unat (nitems fstate)) has_extra + 7) div 8)
            then Inl ValuesTooSmall
            else if unat (buf_offset b) mod 8 \<noteq> 0 then Inl ValuesNotAligned
            else assign_extra (fstate1\<lparr>values_offset := buf_offset b, values_length := buf_length b\<rparr>)
                   (con1\<lparr>buffers := rest\<rparr>) has_extra)"
proof -
  from assign_nullmap_keeps [OF nm]
  have k: "attopts fstate1 = attopts fstate" "nitems fstate1 = nitems fstate"
          "least_length fstate1 has_extra = least_length fstate has_extra"
    by simp_all
  have fit': "spec_least_length (sint (unitsz (attopts fstate))) (unat (nitems fstate)) has_extra < 2 ^ 64"
    using fit by simp
  have ll: "unat (least_length fstate has_extra)
              = spec_least_length (sint (unitsz (attopts fstate))) (unat (nitems fstate)) has_extra"
    using n7 fit' by (rule unat_least_length)
  have ma: "unat (MAXALIGN (least_length fstate has_extra))
              = 8 * ((spec_least_length (sint (unitsz (attopts fstate))) (unat (nitems fstate)) has_extra + 7) div 8)"
    using unat_MAXALIGN [of "least_length fstate has_extra"] fit ll by simp
  have small: "(buf_length b < MAXALIGN (least_length fstate has_extra))
                = (unat (buf_length b)
                     < 8 * ((spec_least_length (sint (unitsz (attopts fstate))) (unat (nitems fstate)) has_extra + 7) div 8))"
    by (simp add: word_less_nat_alt ma)
  have al: "(buf_offset b \<noteq> MAXALIGN (buf_offset b)) = (unat (buf_offset b) mod 8 \<noteq> 0)"
    by (simp add: MAXALIGN_aligned)
  show ?thesis
    using nm unit bufs k small al
    by (simp add: assignRecordBatchFieldStateBuffer_def assign_values_def next_buffer_def Let_def)
qed

theorem values_buffer_check_witness:
  "assign_nullmap int32_fstate \<lparr>buffers = [buffer_at 0 0, buffer_at 0 8], fnodes = []\<rparr>
       = Inr (int32_fstate, \<lparr>buffers = [buffer_at 0 8], fnodes = []\<rparr>)
   \<and> unitsz (attopts int32_fstate) \<noteq> 0
   \<and> unat (nitems int32_fstate) + 7 < 2 ^ 64
   \<and> spec_least_length (sint (unitsz (attopts int32_fstate))) (unat (nitems int32_fstate)) False + 7 < 2 ^ 64
   \<and> assignRecordBatchFieldStateBuffer int32_fstate
         \<lparr>buffers = [buffer_at 0 0, buffer_at 0 8], fnodes = []\<rparr> False
       = Inr (int32_fstate\<lparr>values_offset := 0, values_length := 8\<rparr>, \<lparr>buffers = [], fnodes = []\<rparr>)"
proof -
  have h1: "assign_nullmap int32_fstate \<lparr>buffers = [buffer_at 0 0, buffer_at 0 8], fnodes = []\<rparr>
              = Inr (int32_fstate, \<lparr>buffers = [buffer_at 0 8], fnodes = []\<rparr>)"
    by (simp add: assign_nullmap_def next_buffer_def int32_fstate_def init_fstate_def fnode_of_def
                  word_sless_alt)
  have h2: "unitsz (attopts int32_fstate) \<noteq> 0"
    by (simp add: int32_fstate_def)
  have h3: "buffers \<lparr>buffers = [buffer_at 0 8], fnodes = []\<rparr> = buffer_at 0 8 # []"
    by simp
  have h4: "unat (nitems int32_fstate) + 7 < 2 ^ 64"
    by (simp add: int32_fstate_def init_fstate_def fnode_of_def)
  have h5: "spec_least_length (sint (unitsz (attopts int32_fstate))) (unat (nitems int32_fstate)) False + 7 < 2 ^ 64"
    by (simp add: int32_fstate_def init_fstate_def fnode_of_def spec_least_length_def)
  have v: "spec_least_length (sint (unitsz (attopts int32_fstate))) (unat (nitems int32_fstate)) False = 4"
    by (simp add: int32_fstate_def init_fstate_def fnode_of_def spec_least_length_def)
  show ?thesis
    using h1 h2 h4 h5 values_buffer_check [OF h1 h2 h3 h4 h5]
    by (simp add: v buffer_at_def assign_extra_def)
qed

text \<open>
  C4 as stated fails: an \<open>Int32\<close> field of one row with a values buffer of 4 bytes at offset 0
  has length \<open>unit_size \<times> row_count\<close> and an aligned offset, and is refused all the same,
  since the source compares the length with \<^verbatim>\<open>MAXALIGN(least_length)\<close> = 8. And where the
  product wraps, a buffer below \<open>unit_size \<times> row_count\<close> is accepted: an \<open>Int64\<close> field of
  \<open>2^61\<close> rows with a values buffer of no bytes.
\<close>

theorem values_buffer_claim_counterexample:
  "\<not> unat (buf_length (buffer_at 0 4))
        < nat (sint (unitsz (attopts int32_fstate))) * unat (nitems int32_fstate)
   \<and> unat (buf_offset (buffer_at 0 4)) mod 8 = 0
   \<and> assignRecordBatchFieldStateBuffer int32_fstate
         \<lparr>buffers = [buffer_at 0 0, buffer_at 0 4], fnodes = []\<rparr> False
       = Inl ValuesTooSmall
   \<and> RecordBatchCorrupt ValuesTooSmall
   \<and> unat (buf_length (buffer_at 0 0))
        < nat (sint (unitsz (attopts int64_huge_fstate))) * unat (nitems int64_huge_fstate)
   \<and> assignRecordBatchFieldStateBuffer int64_huge_fstate
         \<lparr>buffers = [buffer_at 0 0, buffer_at 0 0], fnodes = []\<rparr> False
       = Inr (int64_huge_fstate\<lparr>values_offset := 0, values_length := 0\<rparr>,
              \<lparr>buffers = [], fnodes = []\<rparr>)"
  by (simp add: assignRecordBatchFieldStateBuffer_def assign_nullmap_def assign_values_def
                assign_extra_def next_buffer_def least_length_def MAXALIGN_def MAXIMUM_ALIGNOF_def
                int32_fstate_def int64_huge_fstate_def init_fstate_def fnode_of_def buffer_at_def
                word_sless_alt)

subsection \<open>Evaluating the binder on concrete inputs\<close>

lemmas binder_eval =
  bound_type_def binding_def assignRecordBatchFieldStateBuffer_def assign_nullmap_def
  assign_values_def assign_extra_def next_buffer_def least_length_def MAXALIGN_def
  MAXIMUM_ALIGNOF_def init_fstate_def fnode_of_def buffer_at_def word_sless_alt word_sle_eq
  InvalidOid_def one_field_context_def example_catalog_def OidIsValid_def
  PG_CATALOG_NAMESPACE_def split_at_dot_def arrowFieldGetPGTypeHint_def
  UUIDOID_def BYTEAOID_def MACADDROID_def INETOID_def INT4OID_def TEXTOID_def
  BLCKSZ_def VARHDRSZ_def

subsection \<open>The Date branch of the type binder (C6)\<close>

text \<open>
  C6: an Arrow Date field is bound to the host date type with unit size 4 for unit Day and
  8 for unit MilliSecond, any other unit being refused. The source gives the MilliSecond
  branch \<^verbatim>\<open>sizeof(int32_t)\<close>: a Date[MilliSecond] field of two rows is bound to \<open>date\<close>
  with unit size 4 (not 8), so that a values buffer of 8 bytes would pass for it.
\<close>

theorem date_millisecond_unit_size:
  "bound_type (buildRecordBatchFieldState example_catalog
       \<lparr>buffers = [buffer_at 0 0, buffer_at 0 16], fnodes = [fnode_of 2]\<rparr>
       (ArrowField (ArrowNodeTag__Date ArrowDateUnit__MilliSecond) [] []) 0)
     = Inr (DATEOID, 4)"
  by (simp add: bound_type_def binding_def assignRecordBatchFieldStateBuffer_def assign_nullmap_def
                assign_values_def assign_extra_def next_buffer_def least_length_def MAXALIGN_def
                MAXIMUM_ALIGNOF_def init_fstate_def fnode_of_def buffer_at_def word_sless_alt
                InvalidOid_def)

lemma date_binding_day_and_unknown:
  "scalar_binding cat hint_oid (ArrowNodeTag__Date ArrowDateUnit__Day)
     = Some (binding ArrowType__Date 4 (opts_date ArrowDateUnit__Day) DATEOID (- 1) False)
   \<and> scalar_binding cat hint_oid (ArrowNodeTag__Date ArrowDateUnit__Unknown) = Some (Inl UnsupportedType)
   \<and> scalar_binding cat hint_oid (ArrowNodeTag__Date ArrowDateUnit__MilliSecond)
     = Some (binding ArrowType__Date 4 (opts_date ArrowDateUnit__MilliSecond) DATEOID (- 1) False)"
  by simp

subsection \<open>The type hint (C7)\<close>

lemma scalar_binding_hint_indep:
  "(\<forall>w. t \<noteq> ArrowNodeTag__FixedSizeBinary w) \<Longrightarrow> scalar_binding cat h t = scalar_binding cat h' t"
  by (cases t) simp_all

lemma assign_buffer_keeps_type:
  "assignRecordBatchFieldStateBuffer f c x = Inr (f1, c1) \<Longrightarrow> atttypid f1 = atttypid f"
  by (auto simp add: assignRecordBatchFieldStateBuffer_def assign_nullmap_def assign_values_def
                     assign_extra_def next_buffer_def Let_def
           split: sum.splits list.splits if_splits prod.splits)

lemma composite_matches_cong:
  "num_children a = num_children b \<Longrightarrow> children a = children b
     \<Longrightarrow> composite_matches cat a oid = composite_matches cat b oid"
  by (simp add: composite_matches_def cong: option.case_cong)

lemma hint_unused_outside:
  assumes "\<forall>w. t \<noteq> ArrowNodeTag__FixedSizeBinary w" and "t \<noteq> ArrowNodeTag__Struct"
  shows "buildRecordBatchFieldState cat con (ArrowField t md cs) depth
           = buildRecordBatchFieldState cat con (ArrowField t md' cs) depth"
  using assms by (cases t) (simp_all add: Let_def split: list.splits)

lemma fixed_size_binary_type:
  assumes "buildRecordBatchFieldState cat con (ArrowField (ArrowNodeTag__FixedSizeBinary w) md cs) depth
             = Inr (fstate, con')"
  shows "atttypid (common fstate) =
           (if pg_type_hint_loop cat md = MACADDROID \<and> w = 6 then MACADDROID
            else if pg_type_hint_loop cat md = INETOID \<and> (w = 4 \<or> w = 16) then INETOID
            else BYTEAOID)"
  using assms
  by (auto simp add: Let_def binding_def split: list.splits if_splits sum.splits prod.splits
           dest!: assign_buffer_keeps_type)

lemma struct_hint_type:
  assumes "buildRecordBatchFieldState cat con (ArrowField ArrowNodeTag__Struct md cs) depth
             = Inr (fstate, con')"
      and "OidIsValid (pg_type_hint_loop cat md)"
      and "composite_matches cat fstate (pg_type_hint_loop cat md)"
  shows "atttypid (common fstate) = pg_type_hint_loop cat md"
  using assms
  by (auto simp add: Let_def assignRecordBatchFieldStateComposite_def composite_candidates_def
                     composite_matches_def
           split: list.splits if_splits sum.splits prod.splits option.splits)

text \<open>
  C7, as amended. The \<^verbatim>\<open>pg_type\<close> hint of a field is honoured in two places only. For a
  FixedSizeBinary field the hint \<open>macaddr\<close> with byte width 6 binds \<open>macaddr\<close>, the hint
  \<open>inet\<close> with byte width 4 or 16 binds \<open>inet\<close>, and everything else binds \<open>bytea\<close>. For a
  Struct field a hinted type that the user may use and whose attribute types are the host
  types of the children is bound in preference to the composite types of the catalog scan.
  For every other Arrow type the result of the binder does not depend on the metadata of
  the field, so the default mapping is used whatever the hint names.
\<close>

theorem pg_type_hint_scope:
  "((\<forall>w. t \<noteq> ArrowNodeTag__FixedSizeBinary w) \<and> t \<noteq> ArrowNodeTag__Struct \<longrightarrow>
      buildRecordBatchFieldState cat con (ArrowField t md cs) depth
        = buildRecordBatchFieldState cat con (ArrowField t [] cs) depth)
   \<and> (buildRecordBatchFieldState cat con (ArrowField (ArrowNodeTag__FixedSizeBinary w) md cs) depth
          = Inr (fstate, con') \<longrightarrow>
        atttypid (common fstate) =
          (if pg_type_hint_loop cat md = MACADDROID \<and> w = 6 then MACADDROID
           else if pg_type_hint_loop cat md = INETOID \<and> (w = 4 \<or> w = 16) then INETOID
           else BYTEAOID))
   \<and> (buildRecordBatchFieldState cat con (ArrowField ArrowNodeTag__Struct md cs) depth
          = Inr (sstate, con'')
        \<and> OidIsValid (pg_type_hint_loop cat md)
        \<and> composite_matches cat sstate (pg_type_hint_loop cat md) \<longrightarrow>
        atttypid (common sstate) = pg_type_hint_loop cat md)"
  using hint_unused_outside [of t cat con md cs depth "[]"]
        fixed_size_binary_type [of cat con w md cs depth fstate con']
        struct_hint_type [of cat con md cs depth sstate con'']
  by blast

theorem pg_type_hint_scope_witness:
  "buildRecordBatchFieldState example_catalog (one_field_context 1 8)
       (ArrowField (ArrowNodeTag__Int 32 True) [(''pg_type'', ''uuid'')] []) 0
     = buildRecordBatchFieldState example_catalog (one_field_context 1 8)
         (ArrowField (ArrowNodeTag__Int 32 True) [] []) 0
   \<and> bound_type (buildRecordBatchFieldState example_catalog (one_field_context 1 8)
         (ArrowField (ArrowNodeTag__FixedSizeBinary 6) [(''pg_type'', ''macaddr'')] []) 0)
       = Inr (MACADDROID, 6)
   \<and> OidIsValid (pg_type_hint_loop example_catalog [(''pg_type'', ''pair'')])
   \<and> bound_type (buildRecordBatchFieldState example_catalog pair_context pair_field 0)
       = Inr (pg_type_hint_loop example_catalog [(''pg_type'', ''pair'')], 0)"
proof -
  obtain mstate mcon where m:
    "buildRecordBatchFieldState example_catalog (one_field_context 1 8)
       (ArrowField (ArrowNodeTag__FixedSizeBinary 6) [(''pg_type'', ''macaddr'')] []) 0
     = Inr (mstate, mcon)"
    and mu: "unitsz (attopts (common mstate)) = 6"
    by (simp add: binder_eval)
  have mh: "pg_type_hint_loop example_catalog [(''pg_type'', ''macaddr'')] = MACADDROID"
    by (simp add: binder_eval)
  obtain sstate scon where s:
    "buildRecordBatchFieldState example_catalog pair_context
       (ArrowField ArrowNodeTag__Struct [(''pg_type'', ''pair'')]
          [ArrowField (ArrowNodeTag__Int 32 True) [] [], ArrowField ArrowNodeTag__Utf8 [] []]) 0
     = Inr (sstate, scon)"
    and su: "unitsz (attopts (common sstate)) = 0"
    and sm: "composite_matches example_catalog sstate (pg_type_hint_loop example_catalog [(''pg_type'', ''pair'')])"
    by (simp add: binder_eval pair_context_def assignRecordBatchFieldStateComposite_def
                  composite_candidates_def composite_matches_def)
  have sv: "OidIsValid (pg_type_hint_loop example_catalog [(''pg_type'', ''pair'')])"
    by (simp add: binder_eval)
  have a: "buildRecordBatchFieldState example_catalog (one_field_context 1 8)
             (ArrowField (ArrowNodeTag__Int 32 True) [(''pg_type'', ''uuid'')] []) 0
           = buildRecordBatchFieldState example_catalog (one_field_context 1 8)
               (ArrowField (ArrowNodeTag__Int 32 True) [] []) 0"
    using pg_type_hint_scope [of "ArrowNodeTag__Int 32 True" example_catalog "one_field_context 1 8"
            "[(''pg_type'', ''uuid'')]" "[]" 0]
    by simp
  have b: "atttypid (common mstate) = MACADDROID"
    using pg_type_hint_scope [of _ example_catalog "one_field_context 1 8" "[(''pg_type'', ''macaddr'')]"
            "[]" 0 6 mstate mcon] m mh
    by simp
  have c: "atttypid (common sstate) = pg_type_hint_loop example_catalog [(''pg_type'', ''pair'')]"
    using pg_type_hint_scope [of _ example_catalog pair_context "[(''pg_type'', ''pair'')]"
            "[ArrowField (ArrowNodeTag__Int 32 True) [] [], ArrowField ArrowNodeTag__Utf8 [] []]" 0
            _ _ _ sstate scon] s sv sm
    by blast
  show ?thesis
    using a b c m mu s su sv by (simp add: bound_type_def pair_field_def)
qed

text \<open>
  C7 as stated fails: a FixedSizeBinary field of byte width 16 whose \<^verbatim>\<open>pg_type\<close> entry names
  the existing 16-byte type \<open>uuid\<close> is bound to \<open>bytea\<close>, the default mapping.
\<close>

theorem pg_type_hint_claim_counterexample:
  "arrowFieldGetPGTypeHint example_catalog
       (ArrowField (ArrowNodeTag__FixedSizeBinary 16) [(''pg_type'', ''uuid'')] []) = UUIDOID
   \<and> bound_type (buildRecordBatchFieldState example_catalog (one_field_context 1 16)
         (ArrowField (ArrowNodeTag__FixedSizeBinary 16) [(''pg_type'', ''uuid'')] []) 0)
       = Inr (BYTEAOID, 16)
   \<and> BYTEAOID \<noteq> UUIDOID"
  by (simp add: binder_eval)


subsection \<open>The file-set resolver (C9, C10)\<close>

lemma strtok_r_buffer_again:
  assumes "strtok_r temp delim = Some (tok, saveptr)"
  shows "strtok_r (strtok_r_buffer temp delim) delim = Some (tok, [])"
proof -
  define s where "s = dropWhile (\<lambda>c. c = delim) temp"
  from assms have ne: "s \<noteq> []" and tk: "tok = takeWhile (\<lambda>c. c \<noteq> delim) s"
    by (auto simp add: strtok_r_def s_def Let_def split: if_splits)
  have "hd s \<noteq> delim" using ne hd_dropWhile [of "\<lambda>c. c = delim" temp] by (simp add: s_def)
  then have tne: "tok \<noteq> []" using ne tk by (cases s) auto
  have all: "\<forall>c\<in>set tok. c \<noteq> delim" using tk by (auto dest: set_takeWhileD)
  have pre: "\<forall>c\<in>set (takeWhile (\<lambda>c. c = delim) temp). c = delim"
    by (auto dest: set_takeWhileD)
  have d0: "dropWhile (\<lambda>c. c = delim) tok = tok"
    using all tne by (cases tok) auto
  have d1: "dropWhile (\<lambda>c. c = delim) (takeWhile (\<lambda>c. c = delim) temp @ tok) = tok"
    using pre d0 by (simp add: dropWhile_append)
  have t1: "takeWhile (\<lambda>c. c \<noteq> delim) tok = tok" using all by (simp add: takeWhile_eq_all_conv)
  have t2: "dropWhile (\<lambda>c. c \<noteq> delim) tok = []" using all by simp
  have b: "strtok_r_buffer temp delim = takeWhile (\<lambda>c. c = delim) temp @ tok"
    by (simp add: strtok_r_buffer_def s_def tk)
  show ?thesis
    unfolding b by (simp add: strtok_r_def Let_def d1 t1 t2 tne)
qed

lemma files_loop_returns_only_if:
  assumes ret: "files_loop env temp fl = Some y"
  shows "strtok_r temp CHR '','' = None
     \<or> (\<exists>tok saveptr. strtok_r temp CHR '','' = Some (tok, saveptr) \<and> \<not> access_R_OK env (trim env tok))"
  apply (rule files_loop.raw_induct
         [where P = "\<lambda>env temp fl y. strtok_r temp CHR '','' = None
            \<or> (\<exists>tok saveptr. strtok_r temp CHR '','' = Some (tok, saveptr) \<and> \<not> access_R_OK env (trim env tok))",
          OF _ ret])
  subgoal premises prems for loop env temp filesList r
  proof (cases "strtok_r temp CHR '',''")
    case None
    then show ?thesis by simp
  next
    case (Some p)
    obtain tok saveptr where p: "p = (tok, saveptr)" by (cases p)
    show ?thesis
    proof (cases "access_R_OK env (trim env tok)")
      case False
      then show ?thesis using Some p by simp
    next
      case True
      with prems(2) Some p
      have "loop env (strtok_r_buffer temp CHR '','') (filesList @ [trim env tok]) = Some r"
        by simp
      from prems(1) [OF this] strtok_r_buffer_again [of temp "CHR '',''" tok saveptr] Some p True
      show ?thesis by simp
    qed
  qed
  done

lemma files_loop_diverges:
  assumes "strtok_r temp CHR '','' = Some (tok, saveptr)" and "access_R_OK env (trim env tok)"
  shows "files_loop env temp fl = None"
proof (cases "files_loop env temp fl")
  case None
  then show ?thesis .
next
  case (Some y)
  from files_loop_returns_only_if [OF this] assms show ?thesis by simp
qed

text \<open>
  C9: the resolved list holds the literal \<^verbatim>\<open>file\<close>/\<^verbatim>\<open>files\<close> paths in source order, then the
  directory entries. The loop over a \<^verbatim>\<open>files\<close> option calls \<^verbatim>\<open>strtok_r(temp, ...)\<close> with the
  buffer itself on every turn, so it reads the first path again and again: with
  \<^verbatim>\<open>files = '/a.arrow,/b.arrow'\<close> and both paths readable the resolver does not return.
\<close>

theorem files_option_never_returns:
  "arrowFdwExtractFilesList readable_env [(''files'', ''/a.arrow,/b.arrow'')] = None"
proof -
  have t: "strtok_r ''/a.arrow,/b.arrow'' CHR '','' = Some (''/a.arrow'', ''/b.arrow'')"
    by (simp add: strtok_r_def)
  have "files_loop readable_env ''/a.arrow,/b.arrow'' [] = None"
    by (rule files_loop_diverges [OF t]) (simp add: readable_env_def)
  then show ?thesis by (simp add: arrowFdwExtractFilesList_def)
qed

text \<open>
  C10: with \<^verbatim>\<open>suffix\<close> given and \<^verbatim>\<open>dir\<close> absent the resolution fails with an error. The
  check stands after the loop over the options, and that loop does not return once a
  \<^verbatim>\<open>files\<close> option holds a readable path (the defect of C9): no error is raised then.
\<close>

theorem suffix_without_dir_never_returns:
  "arrowFdwExtractFilesList readable_env [(''suffix'', ''arrow''), (''files'', ''/a.arrow'')] = None"
proof -
  have t: "strtok_r ''/a.arrow'' CHR '','' = Some (''/a.arrow'', [])"
    by (simp add: strtok_r_def)
  have "files_loop readable_env ''/a.arrow'' [] = None"
    by (rule files_loop_diverges [OF t]) (simp add: readable_env_def)
  then show ?thesis by (simp add: arrowFdwExtractFilesList_def)
qed

text \<open>Without a \<^verbatim>\<open>files\<close> option the resolver returns, the literal files stand in source
  order before the directory entries, and \<^verbatim>\<open>suffix\<close> without \<^verbatim>\<open>dir\<close> is an error.\<close>

lemma options_loop_no_files:
  "\<forall>opt\<in>set opts. fst opt \<noteq> ''files'' \<Longrightarrow> \<exists>r. options_loop env opts s = Some r"
  by (induction env opts s rule: options_loop.induct) auto

lemma options_loop_suffix:
  "options_loop env opts s = Some (Inr s') \<Longrightarrow>
     (dir_suffix s \<noteq> None \<or> (\<exists>a. (''suffix'', a) \<in> set opts)) \<Longrightarrow> dir_suffix s' \<noteq> None"
  by (induction env opts s rule: options_loop.induct)
     (auto split: if_splits option.splits sum.splits)

lemma options_loop_no_dir:
  "options_loop env opts s = Some (Inr s') \<Longrightarrow>
     dir_path s = None \<Longrightarrow> \<forall>opt\<in>set opts. fst opt \<noteq> ''dir'' \<Longrightarrow> dir_path s' = None"
  by (induction env opts s rule: options_loop.induct)
     (auto split: if_splits option.splits sum.splits)

lemma suffix_without_dir_fails:
  assumes "\<forall>opt\<in>set opts. fst opt \<noteq> ''files''"
      and "(''suffix'', a) \<in> set opts" and "\<forall>opt\<in>set opts. fst opt \<noteq> ''dir''"
  shows "\<exists>e. arrowFdwExtractFilesList env opts = Some (Inl e)"
proof -
  let ?s0 = "\<lparr>filesList = [], dir_path = None, dir_suffix = None, parallel_nworkers = - 1\<rparr>"
  obtain r where r: "options_loop env opts ?s0 = Some r"
    using options_loop_no_files [OF assms(1)] by blast
  show ?thesis
  proof (cases r)
    case (Inl e)
    then show ?thesis using r by (simp add: arrowFdwExtractFilesList_def)
  next
    case (Inr s')
    have "dir_suffix s' \<noteq> None" using options_loop_suffix [of env opts ?s0 s'] r Inr assms(2) by blast
    moreover have "dir_path s' = None" using options_loop_no_dir [of env opts ?s0 s'] r Inr assms(3) by simp
    ultimately show ?thesis using r Inr by (simp add: arrowFdwExtractFilesList_def)
  qed
qed

lemma options_loop_files_in_order:
  "\<forall>opt\<in>set opts. fst opt \<noteq> ''files'' \<Longrightarrow> options_loop env opts s = Some (Inr s') \<Longrightarrow>
     filesList s' = filesList s @ map snd (filter (\<lambda>opt. fst opt = ''file'') opts)"
  by (induction env opts s rule: options_loop.induct)
     (auto split: if_splits option.splits sum.splits)

lemma dir_loop_entries:
  "dir_loop env path suffix entries fl =
     fl @ map (\<lambda>d_name. path @ ''/'' @ d_name)
            (filter (\<lambda>d_name. d_name \<noteq> ''.'' \<and> d_name \<noteq> ''..''
                       \<and> (case suffix of None \<Rightarrow> True | Some sfx \<Rightarrow> suffix_matches d_name sfx)
                       \<and> access_R_OK env (path @ ''/'' @ d_name)) entries)"
  by (induction env path suffix entries fl rule: dir_loop.induct)
     (auto split: option.splits)

subsection \<open>Field states through the cache (C3)\<close>

lemma sint_word_of_nat_32:
  "k < 2 ^ 31 \<Longrightarrow> sint (word_of_nat k :: 32 word) = int k"
proof -
  assume k: "k < 2 ^ 31"
  have "sint (word_of_nat k :: 32 word) = signed_take_bit 31 (int k)"
    by (simp add: signed_of_nat)
  also have "\<dots> = int k"
    by (rule signed_take_bit_int_eq_self) (use k in simp_all)
  finally show ?thesis .
qed

lemma count_positive_iff:
  "k < 2 ^ 31 \<Longrightarrow> (0 <s (word_of_nat k :: 32 word)) = (0 < k)"
  by (simp add: word_sless_alt sint_word_of_nat_32)

lemma by_cache_of_entry:
  assumes "fc_common fc = \<lparr>atttypid = atttypid c, atttypmod = atttypmod c, attopts = attopts c,
    nitems = nitems c, null_count = null_count c,
    nullmap_offset = nullmap_offset c, nullmap_length = nullmap_length c,
    values_offset = values_offset c, values_length = values_length c,
    extra_offset = extra_offset c, extra_length = extra_length c,
    stat_min = stat_min c, stat_max = stat_max c, stat_isnull = stat_isnull c\<rparr>"
      and "fc_num_children fc = word_of_nat (length chs)" and "length chs < 2 ^ 31"
      and "map buildRecordBatchFieldStateByCache (fc_children fc) = chs"
  shows "buildRecordBatchFieldStateByCache fc = RecordBatchFieldState c (word_of_nat (length chs)) chs"
proof (cases fc)
  case (arrowMetadataFieldCache owner addr c' n chs' magic)
  show ?thesis
  proof (cases "chs = []")
    case True
    then show ?thesis using assms arrowMetadataFieldCache by (simp add: word_sless_alt)
  next
    case False
    then have "0 <s (word_of_nat (length chs) :: 32 word)"
      using assms(3) by (simp add: count_positive_iff)
    then show ?thesis using assms arrowMetadataFieldCache by simp
  qed
qed

lemma build_fcache_roundtrip:
  "fstate_wf fs \<Longrightarrow> buildArrowMetadataFieldCache P tv fs st = Inr (Some fc, st')
     \<Longrightarrow> buildRecordBatchFieldStateByCache fc = fs"
  "list_all fstate_wf rest \<Longrightarrow> buildArrowMetadataFieldCacheChildren P tv fcache rest st = Inr (Some fc', st'')
     \<Longrightarrow> fc_common fc' = fc_common fcache \<and> fc_num_children fc' = fc_num_children fcache
         \<and> map buildRecordBatchFieldStateByCache (fc_children fc')
             = map buildRecordBatchFieldStateByCache (fc_children fcache) @ rest"
proof (induction P tv fs st and P tv fcache rest st arbitrary: fc st' and fc' st''
         rule: buildArrowMetadataFieldCache_buildArrowMetadataFieldCacheChildren.induct)
  case (1 P curr_tv c n chs st)
  from "1.prems"(1) have n: "n = word_of_nat (length chs)" and len: "length chs < 2 ^ 31"
    and wf: "list_all fstate_wf chs" by simp_all
  from "1.prems"(2) obtain item st1 where
    al: "allocMetadataFieldCache P curr_tv st = Inr (Some item, st1)"
    by (auto split: sum.splits option.splits prod.splits)
  let ?e = "arrowMetadataFieldCache (slot_owner item) (slot_addr item)
               \<lparr>atttypid = atttypid c, atttypmod = atttypmod c, attopts = attopts c,
                nitems = nitems c, null_count = null_count c,
                nullmap_offset = nullmap_offset c, nullmap_length = nullmap_length c,
                values_offset = values_offset c, values_length = values_length c,
                extra_offset = extra_offset c, extra_length = extra_length c,
                stat_min = stat_min c, stat_max = stat_max c, stat_isnull = stat_isnull c\<rparr>
               n [] ARROW_METADATA_CACHE_ACTIVE_MAGIC"
  have ch: "buildArrowMetadataFieldCacheChildren P curr_tv ?e chs st1 = Inr (Some fc, st')"
    using "1.prems"(2) al by simp
  from "1.IH" [OF al refl refl wf ch]
  have k: "fc_common fc = fc_common ?e" "fc_num_children fc = n"
          "map buildRecordBatchFieldStateByCache (fc_children fc) = chs"
    by simp_all
  show ?case
    using by_cache_of_entry [of fc c chs] k n len by simp
next
  case (2 P curr_tv fcache st)
  then show ?case by simp
next
  case (3 P curr_tv fcache child rest st)
  from "3.prems"(1) have wfc: "fstate_wf child" and wfr: "list_all fstate_wf rest" by simp_all
  from "3.prems"(2) obtain sub st1 where
    b: "buildArrowMetadataFieldCache P curr_tv child st = Inr (Some sub, st1)"
    by (auto split: sum.splits option.splits prod.splits)
  let ?e = "arrowMetadataFieldCache (fc_owner fcache) (fc_addr fcache) (fc_common fcache)
               (fc_num_children fcache) (fc_children fcache @ [sub]) (fc_magic fcache)"
  have r: "buildArrowMetadataFieldCacheChildren P curr_tv ?e rest st1 = Inr (Some fc', st'')"
    using "3.prems"(2) b by simp
  have s: "buildRecordBatchFieldStateByCache sub = child"
    using "3.IH"(1) [OF wfc b] .
  from "3.IH"(2) [OF b refl refl wfr r] s
  show ?case by simp
qed

lemma composite_keeps_children:
  "assignRecordBatchFieldStateComposite cat fs hint = Inr fs'
     \<Longrightarrow> num_children fs' = num_children fs \<and> children fs' = children fs"
  by (auto simp add: assignRecordBatchFieldStateComposite_def split: option.splits)

lemma builder_wf:
  "field_wf field \<Longrightarrow> buildRecordBatchFieldState cat con field depth = Inr (fs, con') \<Longrightarrow> fstate_wf fs"
  "list_all field_wf flds \<Longrightarrow> buildRecordBatchFieldStateChildren cat con flds depth = Inr (fss, con'')
     \<Longrightarrow> list_all fstate_wf fss \<and> length fss = length flds"
proof (induction cat con field depth and cat con flds depth arbitrary: fs con' and fss con''
         rule: buildRecordBatchFieldState_buildRecordBatchFieldStateChildren.induct)
  case (1 cat con t md cs depth)
  from "1.prems"(1) have len: "length cs < 2 ^ 31" and wfc: "list_all field_wf cs" by simp_all
  from "1.prems"(2) obtain fnode fnodes_rest where fn: "fnodes con = fnode # fnodes_rest"
    by (auto split: list.splits)
  let ?hint = "pg_type_hint_loop cat md"
  let ?con0 = "con\<lparr>fnodes := fnodes_rest\<rparr>"
  let ?f0 = "init_fstate fnode"
  show ?case
  proof (cases "scalar_binding cat ?hint t")
    case (Some r)
    then show ?thesis using "1.prems"(2) fn
      by (auto simp add: Let_def split: sum.splits prod.splits)
  next
    case None
    show ?thesis
    proof (cases "t = ArrowNodeTag__List \<or> t = ArrowNodeTag__LargeList")
      case True
      from "1.prems"(2) fn None True obtain child where cs: "cs = [child]"
        by (auto simp add: Let_def split: list.splits)
      from "1.prems"(2) fn None True cs have d: "\<not> 0 < depth"
        by (auto simp add: Let_def split: if_splits)
      from "1.prems"(2) fn None True cs d obtain fstate1 con1 element con2 where
        ab: "assignRecordBatchFieldStateBuffer
               (?f0\<lparr>attopts := (if t = ArrowNodeTag__List
                                  then \<lparr>tag = ArrowType__List, unitsz = 4, variant = opts_none\<rparr>
                                  else \<lparr>tag = ArrowType__LargeList, unitsz = 8, variant = opts_none\<rparr>)\<rparr>)
               ?con0 False = Inr (fstate1, con1)"
        and el: "buildRecordBatchFieldState cat con1 child (depth + 1) = Inr (element, con2)"
        and res: "fs = RecordBatchFieldState
                    (fstate1\<lparr>atttypid := array_type cat (atttypid (common element))\<rparr>) 1 [element]"
        by (auto simp add: Let_def split: sum.splits prod.splits if_splits)
      have wfch: "field_wf child" using wfc cs by simp
      have "fstate_wf element"
        using "1.IH"(1) [OF fn refl refl refl None True cs refl d ab refl wfch el] .
      then show ?thesis using res by simp
    next
      case False
      from "1.prems"(2) fn None False have st: "t = ArrowNodeTag__Struct"
        by (auto simp add: Let_def split: if_splits)
      from "1.prems"(2) fn None False st have d: "\<not> 0 < depth"
        by (auto simp add: Let_def split: if_splits)
      from "1.prems"(2) fn None False st d obtain fstate1 con1 chs con2 where
        ab: "assignRecordBatchFieldStateBuffer
               (?f0\<lparr>attopts := \<lparr>tag = ArrowType__Struct, unitsz = 0, variant = opts_none\<rparr>\<rparr>)
               ?con0 False = Inr (fstate1, con1)"
        and ch: "buildRecordBatchFieldStateChildren cat con1 cs (depth + 1) = Inr (chs, con2)"
        and res: "assignRecordBatchFieldStateComposite cat
                    (RecordBatchFieldState fstate1 (word_of_nat (length cs)) chs) ?hint = Inr fs"
        by (auto simp add: Let_def split: sum.splits prod.splits if_splits)
      have k: "list_all fstate_wf chs \<and> length chs = length cs"
        using "1.IH"(2) [OF fn refl refl refl None False st d ab refl wfc ch] .
      from composite_keeps_children [OF res]
      have "num_children fs = word_of_nat (length cs)" "children fs = chs" by simp_all
      then show ?thesis using k len by (cases fs) simp
    qed
  qed
next
  case (2 cat con depth)
  then show ?case by simp
next
  case (3 cat con c cs depth)
  from "3.prems"(1) have wfc: "field_wf c" and wfr: "list_all field_wf cs" by simp_all
  from "3.prems"(2) obtain child con1 chs con2 where
    a: "buildRecordBatchFieldState cat con c depth = Inr (child, con1)"
    and b: "buildRecordBatchFieldStateChildren cat con1 cs depth = Inr (chs, con2)"
    and res: "fss = child # chs"
    by (auto split: sum.splits prod.splits)
  have "fstate_wf child" using "3.IH"(1) [OF wfc a] .
  moreover have "list_all fstate_wf chs \<and> length chs = length cs"
    using "3.IH"(2) [OF a refl wfr b] .
  ultimately show ?case using res by simp
qed

lemma apply_stats_wf:
  "fstate_wf fs \<Longrightarrow> fstate_wf (applyArrowFieldStatsBinary fs bstats i)"
  "list_all fstate_wf fss \<Longrightarrow>
     list_all fstate_wf (applyArrowFieldStatsBinaryChildren fss bs i)
     \<and> length (applyArrowFieldStatsBinaryChildren fss bs i) = length fss"
  by (induction fs bstats i and fss bs i
        rule: applyArrowFieldStatsBinary_applyArrowFieldStatsBinaryChildren.induct)
     simp_all

lemmas cache_eval =
  allocMetadataFieldCache_def fill_free_fcaches.simps reclaim_until_free_block.simps
  carve_fcache_block_def block_slots_def unit_size_def MAXALIGN_def MAXIMUM_ALIGNOF_def
  ARROW_METADATA_BLOCKSZ_def block_data_offset_def example_platform_def fresh_cache_def
  Let_def upt_conv_Cons

text \<open>
  C3: for every field state as the raw-file builder leaves it (lemmas \<open>builder_wf\<close> and
  \<open>apply_stats_wf\<close>: it is well formed, with or without statistics applied), the tree that
  \<^verbatim>\<open>__buildRecordBatchFieldStateByCache\<close> copies out of the cache entry that
  \<^verbatim>\<open>__buildArrowMetadataFieldCache\<close> built from it is the same tree: the type id, the type
  modifier, the type options, the row and null counts, the three pairs of offset and
  length, the statistics, and the number, order and contents of the children.
\<close>

theorem field_cache_roundtrip:
  assumes "fstate_wf fs"
      and "buildArrowMetadataFieldCache P curr_tv fs st = Inr (Some fcache, st')"
  shows "buildRecordBatchFieldStateByCache fcache = fs"
  using assms by (rule build_fcache_roundtrip(1))

theorem field_cache_roundtrip_witness:
  "fstate_wf pair_fstate
   \<and> map_sum id (\<lambda>r. map_option buildRecordBatchFieldStateByCache (fst r))
        (buildArrowMetadataFieldCache example_platform noon pair_fstate fresh_cache)
      = Inr (Some pair_fstate)"
proof -
  have wf: "fstate_wf pair_fstate"
    by (simp add: pair_fstate_def leaf_fstate_def)
  have "\<exists>fcache st'. buildArrowMetadataFieldCache example_platform noon pair_fstate fresh_cache
                        = Inr (Some fcache, st')"
    by (simp add: cache_eval pair_fstate_def leaf_fstate_def)
  then obtain fcache st' where
    b: "buildArrowMetadataFieldCache example_platform noon pair_fstate fresh_cache = Inr (Some fcache, st')"
    by blast
  from field_cache_roundtrip [OF wf b] b wf show ?thesis by simp
qed

subsection \<open>Lookup in the metadata cache (C1)\<close>

lemma mtime_still_valid_iff:
  "mtime_still_valid sb cached =
     (sint (st_mtim_sec sb) < sint (st_mtim_sec cached)
      \<or> (sint (st_mtim_sec sb) = sint (st_mtim_sec cached)
          \<and> sint (st_mtim_nsec sb) \<le> sint (st_mtim_nsec cached)))"
  by (auto simp add: mtime_still_valid_def word_sless_alt word_sle_eq dest: signed_word_eqI)

lemma lookup_walk_valid:
  assumes "mcaches st addr = Some mcache"
      and "st_dev sb = st_dev (stat_buf mcache)" and "st_ino sb = st_ino (stat_buf mcache)"
  shows "lookup_walk curr_tv sb has_exclusive (addr # rest) st =
           (if mtime_still_valid sb (stat_buf mcache)
            then Inr (Some (set_lru_tv curr_tv mcache), touch_lru curr_tv addr mcache st)
            else if has_exclusive then Inl (Undefined IteratorInvalidated)
            else lookup_walk curr_tv sb has_exclusive rest st)"
  using assms by simp

lemma lookup_walk_shared_miss:
  "lookup_walk curr_tv sb False bucket st = Inr (None, st') \<Longrightarrow> st' = st"
  by (induction bucket) (auto split: option.splits if_splits)

lemma lookup_shared_miss:
  "lookupArrowMetadataCache P curr_tv sb False st = Inr (None, st') \<Longrightarrow> st' = st"
  by (simp add: lookupArrowMetadataCache_def lookup_walk_shared_miss)

text \<open>
  C1: an entry is returned iff the modification time it holds is not before that of the
  file; a stale entry is unlinked and released only under the exclusive lock, and left in
  place otherwise. The comparison and the shared-lock branch are as claimed (lemmas
  \<open>mtime_still_valid_iff\<close>, \<open>lookup_walk_valid\<close>, \<open>lookup_walk_shared_miss\<close>). Under the
  exclusive lock the lookup does unlink and release the stale entry, inside
  \<^verbatim>\<open>dlist_foreach\<close>, and then the walk goes on from the released node: for a cache that
  holds one entry, cached at modification time 100, and a file whose modification time
  is 200, the lookup does not end with ``not found''.
\<close>

theorem stale_lookup_under_exclusive_lock:
  "lookupArrowMetadataCache example_platform noon (cached_stat\<lparr>st_mtim_sec := 200\<rparr>) True one_entry_cache
     = Inl (Undefined IteratorInvalidated)"
  by (simp add: lookupArrowMetadataCache_def arrowMetadataHashIndex_def example_platform_def
                ARROW_METADATA_HASH_NSLOTS_def one_entry_cache_def stale_entry_def cached_stat_def
                mtime_still_valid_def word_sless_alt word_sle_eq)

subsection \<open>Insert into the metadata cache (C2)\<close>

lemma alloc_mcache_never_returns_item:
  "allocMetadataCache P curr_tv st \<noteq> Inr (Some item, st')"
  by (auto simp add: allocMetadataCache_def split: sum.splits prod.splits if_splits)

lemma insert_loop_nonempty_never_completes:
  "rbs \<noteq> [] \<Longrightarrow> insert_loop P curr_tv sb rbs chain st \<noteq> Inr (Some chain', st')"
  by (cases rbs) (auto simp add: alloc_mcache_never_returns_item split: sum.splits prod.splits option.splits)

text \<open>
  C2: a successful insert builds one leader and one follower per remaining record batch,
  chained in batch order, and chains the leader only. \<^verbatim>\<open>__allocMetadataCache\<close> never hands
  out an entry (lemma \<open>alloc_mcache_never_returns_item\<close>): it clears its own local pointer and
  stores through it. For a file of one record batch and a cache with free blocks the
  insert ends there, and nothing is chained.
\<close>

theorem insert_one_batch_file:
  "buildArrowMetadataCacheNoLock example_platform noon one_batch_file fresh_cache
     = Inl (Undefined NullPointerDereference)"
  by (simp add: buildArrowMetadataCacheNoLock_def one_batch_file_def allocMetadataCache_def
                fresh_cache_def reclaim_until_free_block.simps)

subsection \<open>A file without record batches (C8)\<close>

text \<open>
  C8, as amended. For a file that parses and holds no record batch (the reader hands over
  no array of record batches), \<^verbatim>\<open>__buildArrowFileStateByFile\<close> yields no file state at all,
  without an error; \<^verbatim>\<open>BuildArrowFileState\<close>, on a cache miss, returns null and leaves the
  cache as it was; and the scan callback returns the end of the scan at once.
\<close>

theorem empty_file_yields_no_state:
  assumes "fs_stat fs fname = Some sb" and "fs_open fs fname = Opened"
      and "fs_read fs fname = Inr af_info" and "\<not> has_dictionaries af_info"
      and "footer_recordBatches af_info = []" and "recordBatches af_info = None"
      and "lookupArrowMetadataCache P curr_tv sb False st = Inr (None, st1)"
  shows "buildArrowFileStateByFile cat fs trm fname = Inr None
         \<and> BuildArrowFileState P cat fs trm curr_tv tupdesc fname st = Inr (None, st)
         \<and> (ArrowIterateForeignScan node :: 'slot option) = None"
proof -
  have a: "buildArrowFileStateByFile cat fs trm fname = Inr None"
    using assms by (simp add: buildArrowFileStateByFile_def)
  have "st1 = st" using assms(7) by (rule lookup_shared_miss)
  then show ?thesis
    using a assms by (simp add: BuildArrowFileState_def ArrowIterateForeignScan_def)
qed

theorem empty_file_yields_no_state_witness:
  "buildArrowFileStateByFile example_catalog (file_system_of empty_file_info) (\<lambda>s. s) ''/empty.arrow'' = Inr None
   \<and> BuildArrowFileState example_platform example_catalog (file_system_of empty_file_info) (\<lambda>s. s) noon
        [INT4OID] ''/empty.arrow'' fresh_cache = Inr (None, fresh_cache)
   \<and> (ArrowIterateForeignScan () :: unit option) = None"
proof -
  have l: "lookupArrowMetadataCache example_platform noon cached_stat False fresh_cache
             = Inr (None, fresh_cache)"
    by (simp add: lookupArrowMetadataCache_def fresh_cache_def)
  have s: "fs_stat (file_system_of empty_file_info) ''/empty.arrow'' = Some cached_stat"
    by (simp add: file_system_of_def empty_file_info_def)
  have o: "fs_open (file_system_of empty_file_info) ''/empty.arrow'' = Opened"
    by (simp add: file_system_of_def)
  have r: "fs_read (file_system_of empty_file_info) ''/empty.arrow'' = Inr empty_file_info"
    by (simp add: file_system_of_def)
  have d: "\<not> has_dictionaries empty_file_info" by (simp add: empty_file_info_def)
  have f: "footer_recordBatches empty_file_info = []" by (simp add: empty_file_info_def)
  have n: "recordBatches empty_file_info = None" by (simp add: empty_file_info_def)
  from empty_file_yields_no_state [OF s o r d f n l, of example_catalog "\<lambda>s. s" "[INT4OID]" "()"]
  show ?thesis .
qed

text \<open>
  C8 as stated fails: for such a file the builder yields no file state, not a file state
  with an empty list of batches; and were the reader to hand over an empty array instead,
  \<^verbatim>\<open>BuildArrowFileState\<close> would chain a null leader into the cache.
\<close>

theorem empty_file_claim_counterexample:
  "buildArrowFileStateByFile example_catalog (file_system_of empty_file_info) (\<lambda>s. s) ''/empty.arrow''
     \<noteq> Inr (Some \<lparr>filename = ''/empty.arrow'', af_stat_buf = cached_stat, rb_list = []\<rparr>)
   \<and> BuildArrowFileState example_platform example_catalog
        (file_system_of (empty_file_info\<lparr>recordBatches := Some []\<rparr>)) (\<lambda>s. s) noon
        [INT4OID] ''/empty.arrow'' fresh_cache = Inl (Undefined NullPointerDereference)"
  by (simp add: buildArrowFileStateByFile_def BuildArrowFileState_def file_system_of_def
                empty_file_info_def lookupArrowMetadataCache_def fresh_cache_def
                buildArrowStatsBinary_def buildArrowMetadataCacheNoLock_def metadata_value_def)

subsection \<open>Min/max statistics of a field (C5)\<close>

declare tokens.simps [simp del]



lemma stats_unitsz_positive:
  "stats_unitsz t = Some usz \<Longrightarrow> 0 < usz \<and> usz \<le> 16"
  by (cases t) (auto split: if_splits ArrowPrecision.splits ArrowDateUnit.splits ArrowTimeUnit.splits)

lemma parse_unit:
  "parseArrowFieldStatsBinary trm n t mn mx = Some (usz, arrays) \<Longrightarrow> 0 < usz \<and> usz \<le> 16"
  by (auto simp add: parseArrowFieldStatsBinary_def stats_unitsz_positive
           split: option.splits prod.splits if_splits)

lemma small_unit_positive:
  "0 < usz \<Longrightarrow> usz \<le> 16 \<Longrightarrow> 0 <s (word_of_nat usz :: 32 word)"
proof -
  assume a: "0 < usz" "usz \<le> 16"
  then have "usz < 2 ^ 31" by simp
  then have "sint (word_of_nat usz :: 32 word) = int usz" by (rule sint_word_of_nat_32)
  then show ?thesis using a by (simp add: word_sless_alt)
qed



lemma built_unit:
  "stats (snd (buildArrowFieldStatsBinary trm n (ArrowField t md cs))) \<noteq> None
     \<Longrightarrow> 0 <s stats_unit (snd (buildArrowFieldStatsBinary trm n (ArrowField t md cs)))"
  by (auto simp add: Let_def small_unit_positive split: option.splits dest!: parse_unit)




text \<open>On the raw-file path the record-batch state counts no fields, so that
  \<^verbatim>\<open>applyArrowStatsBinary\<close> visits none of them and the field states keep the
  \<^verbatim>\<open>stat_isnull\<close> the binder gave them.\<close>

lemma raw_path_counts_no_fields:
  "buildRecordBatchStateOne cat schema idx block rbatch = Inr rb_state \<Longrightarrow> rb_nfields rb_state = 0"
  by (auto simp add: buildRecordBatchStateOne_def split: if_splits sum.splits prod.splits)

lemma apply_stats_without_fields:
  "rb_nfields rb_state = 0 \<Longrightarrow> applyArrowStatsBinary rb_state arrow_bstats = rb_state"
  by (simp add: applyArrowStatsBinary_def)






end
